theory Spec2Isabelle
  imports Complex_Main
begin

section \<open>JavaScript values\<close>

text \<open>
  The browser console (examples/data-logger/public/app.js) reads the relayed messages with
  \<^verbatim>\<open>JSON.parse\<close> and looks at them with property access, truthiness tests and
  \<^verbatim>\<open>===\<close>. A parsed value is a \<open>jsval\<close>; \<open>JUndefined\<close> is what reading a missing
  property gives. A number is the value of the parsed double (\<open>-0\<close> is \<open>0\<close>: the code only
  tests numbers for truthiness and identity, where the two agree). An object is the list of
  its own properties; the first binding of a key is the one read.
\<close>

datatype jsval =
    JUndefined
  | JNull
  | JBool bool
  | JNum rat
  | JStr string
  | JArr "jsval list"
  | JObj "(string \<times> jsval) list"

text \<open>Truthiness, as \<^verbatim>\<open>if (v)\<close>, \<^verbatim>\<open>!v\<close>, \<^verbatim>\<open>a && b\<close> and \<^verbatim>\<open>a || b\<close> test it.\<close>

fun truthy :: "jsval \<Rightarrow> bool" where
  "truthy JUndefined = False"
| "truthy JNull = False"
| "truthy (JBool b) = b"
| "truthy (JNum n) = (n \<noteq> 0)"
| "truthy (JStr s) = (s \<noteq> [])"
| "truthy (JArr xs) = True"
| "truthy (JObj kvs) = True"

text \<open>
  \<^verbatim>\<open>a === b\<close>. Primitives are compared by value. Objects and arrays are compared by
  identity, and every comparison of the source is between values taken from two different
  places (the previous message and this one, or the \<^verbatim>\<open>spec\<close> and the \<^verbatim>\<open>status\<close> of one
  message), so two objects are never the same object.
\<close>

fun strict_eq :: "jsval \<Rightarrow> jsval \<Rightarrow> bool" where
  "strict_eq JUndefined JUndefined = True"
| "strict_eq JNull JNull = True"
| "strict_eq (JBool a) (JBool b) = (a = b)"
| "strict_eq (JNum a) (JNum b) = (a = b)"
| "strict_eq (JStr a) (JStr b) = (a = b)"
| "strict_eq a b = False"

text \<open>
  \<^verbatim>\<open>v?.k\<close>, and \<^verbatim>\<open>v.k\<close> where \<open>v\<close> is known not to be null or undefined, for the
  keys the source reads (type, devices, data-logger-1, device, spec, status, appVersion,
  name, location, enabled, logInterval, appName): none of them is inherited from a
  prototype, so the result is the own property or undefined.
\<close>

fun get :: "jsval \<Rightarrow> string \<Rightarrow> jsval" where
  "get (JObj kvs) k = (case map_of kvs k of Some v \<Rightarrow> v | None \<Rightarrow> JUndefined)"
| "get v k = JUndefined"

text \<open>
  Conversion to a string (a template literal's \<^verbatim>\<open>${v}\<close>, an assignment to
  \<^verbatim>\<open>textContent\<close>) or to a primitive (\<^verbatim>\<open>v > 0\<close>) throws a TypeError exactly when the
  value is an object with an own property \<^verbatim>\<open>toString\<close> (a parsed value is never
  callable, so neither \<^verbatim>\<open>toString\<close> nor \<^verbatim>\<open>valueOf\<close> yields a primitive), or an
  array that holds such a value (\<^verbatim>\<open>join\<close> converts the elements).
\<close>

fun ToString_throws :: "jsval \<Rightarrow> bool" where
  "ToString_throws (JObj kvs) = (map_of kvs ''toString'' \<noteq> None)"
| "ToString_throws (JArr xs) = (\<exists>x \<in> set xs. ToString_throws x)"
| "ToString_throws v = False"

datatype js_error = SyntaxError | TypeError

text \<open>
  A call either returns or throws; what it did to the state before throwing stays done.
\<close>

datatype 'a result = Returns 'a | Throws js_error 'a

definition and_then :: "'a result \<Rightarrow> ('a \<Rightarrow> 'a result) \<Rightarrow> 'a result" where
  "and_then r f = (case r of Returns s \<Rightarrow> f s | Throws e s \<Rightarrow> Throws e s)"

fun state_of :: "'a result \<Rightarrow> 'a" where
  "state_of (Returns s) = s"
| "state_of (Throws e s) = s"

text \<open>Converting the values \<open>vs\<close> to strings, in order, in state \<open>s\<close>.\<close>

definition template :: "jsval list \<Rightarrow> 'a \<Rightarrow> 'a result" where
  "template vs s = (if \<exists>v \<in> set vs. ToString_throws v then Throws TypeError s else Returns s)"

section \<open>The browser console: state\<close>

text \<open>
  The text of an activity entry, by the literal or template that builds it:
  \<^item> \<open>Connected_to_reconciler\<close>: \<^verbatim>\<open>'Connected to reconciler'\<close>
  \<^item> \<open>Connected_received_device_state\<close>: \<^verbatim>\<open>'Connected - received device state'\<close>
  \<^item> \<open>State_updated d\<close>: \<^verbatim>\<open>`State updated: ${d}`\<close>
  \<^item> \<open>Disconnected_from_reconciler\<close>: \<^verbatim>\<open>'Disconnected from reconciler'\<close>
  \<^item> \<open>Error_message e\<close>: \<^verbatim>\<open>'Error: ' + error.message\<close>
  \<^item> \<open>Desired_version old new\<close>: \<^verbatim>\<open>`Desired version: v${old} -> v${new}`\<close>
  \<^item> \<open>Deployed v\<close>: \<^verbatim>\<open>`Deployed v${v}`\<close> and a check mark
  \<^item> \<open>Reconciling actual new\<close>: \<^verbatim>\<open>`Reconciling: v${actual} -> v${new}`\<close>
\<close>

datatype activity_text =
    Connected_to_reconciler
  | Connected_received_device_state
  | State_updated jsval
  | Disconnected_from_reconciler
  | Error_message js_error
  | Desired_version jsval jsval
  | Deployed jsval
  | Reconciling jsval jsval

record activity_entry =
  time :: string
  message :: activity_text
  type :: string

record device =
  spec :: jsval
  status :: jsval

datatype console_line = Console_log string | Console_error string

datatype readyState = CONNECTING | OPEN | CLOSING | CLOSED

text \<open>
  A pending \<^verbatim>\<open>setTimeout\<close>: the watchdog of the socket created by the \<open>k\<close>-th call of
  the \<^verbatim>\<open>WebSocket\<close> constructor (with the \<^verbatim>\<open>isSafari\<close> its closure holds), or the
  retry \<^verbatim>\<open>setTimeout(connectWebSocket, 2000)\<close>. A timer is kept with its delay in
  milliseconds.
\<close>

datatype callback = Watchdog nat bool | Reconnect

text \<open>
  The module's variables (\<open>config\<close>, \<open>currentDevice\<close>, \<open>ws\<close>, \<open>wsConnecting\<close>,
  \<open>activityLog\<close>) and what the code does to its surroundings: the sockets it has
  constructed (\<open>sockets\<close> counts them; \<open>ws = Some k\<close> is the \<open>k\<close>-th), the pending timers,
  the sockets it has called \<^verbatim>\<open>close()\<close> on, the calls of \<^verbatim>\<open>location.reload()\<close>, the
  console, and of the page the text of \<^verbatim>\<open>#status-text\<close> and the class of
  \<^verbatim>\<open>#sync-arrow\<close>. \<open>clock_reads\<close> counts the readings of the wall clock. The page is
  taken to hold the elements the code looks up.
\<close>

record app =
  config :: jsval
  currentDevice :: "device option"
  ws :: "nat option"
  wsConnecting :: bool
  activityLog :: "activity_entry list"
  sockets :: nat
  timers :: "(nat \<times> callback) list"
  close_calls :: "nat list"
  reloads :: nat
  console :: "console_line list"
  status_text :: string
  syncArrow :: string
  clock_reads :: nat

text \<open>
  What the browser gives the code: \<open>clock n\<close> is the \<open>n\<close>-th reading of
  \<^verbatim>\<open>new Date().toLocaleTimeString('en-US', { hour12: false })\<close>, and \<open>isSafari\<close> the
  result of the test of \<^verbatim>\<open>navigator.userAgent\<close>.
\<close>

record browser =
  clock :: "nat \<Rightarrow> string"
  isSafari :: bool

text \<open>
  What a handler finds when it runs: the \<^verbatim>\<open>readyState\<close> of each socket, and whether
  \<^verbatim>\<open>new WebSocket(wsUrl)\<close> would throw.
\<close>

record world =
  readyState :: "nat \<Rightarrow> readyState"
  WebSocket_throws :: bool

definition console_log :: "string \<Rightarrow> app \<Rightarrow> app" where
  "console_log l s = s\<lparr>console := console s @ [Console_log l]\<rparr>"

definition console_error :: "string \<Rightarrow> app \<Rightarrow> app" where
  "console_error l s = s\<lparr>console := console s @ [Console_error l]\<rparr>"

section \<open>The activity log\<close>

text \<open>
  \<^verbatim>\<open>activityLog.unshift({ time, message, type }); if (activityLog.length > 50) activityLog.pop();\<close>
  (\<^verbatim>\<open>renderActivityLog\<close> then shows the first 15 entries on the page.)
\<close>

definition logActivity :: "browser \<Rightarrow> activity_text \<Rightarrow> string \<Rightarrow> app \<Rightarrow> app" where
  "logActivity B message type s =
     (let time = clock B (clock_reads s);
          unshifted = \<lparr>time = time, message = message, type = type\<rparr> # activityLog s
      in s\<lparr>activityLog := (if length unshifted > 50 then butlast unshifted else unshifted),
            clock_reads := Suc (clock_reads s)\<rparr>)"
  for message type

section \<open>The reconciliation state model\<close>

text \<open>
  \<^verbatim>\<open>renderFlatState(data)\<close> returns at once on a falsy \<open>data\<close>, and otherwise converts
  \<^verbatim>\<open>data.appName || '--'\<close>, \<^verbatim>\<open>data.appVersion || '?'\<close> and \<^verbatim>\<open>data.logInterval || 0\<close> to
  strings. Only whether it throws is kept of it.
\<close>

definition renderFlatState :: "jsval \<Rightarrow> app \<Rightarrow> app result" where
  "renderFlatState data s =
     (if \<not> truthy data then Returns s
      else template [get data ''appName'', get data ''appVersion'', get data ''logInterval''] s)"

text \<open>
  \<^verbatim>\<open>renderStateComparison\<close>: the class of the sync arrow is set first (the empty class
  with the text \<^verbatim>\<open>?\<close>, \<^verbatim>\<open>synced\<close> with \<^verbatim>\<open>=\<close>, \<^verbatim>\<open>pending\<close> with an arrow), then
  both panels are rendered.
\<close>

definition renderStateComparison :: "jsval \<Rightarrow> jsval \<Rightarrow> app \<Rightarrow> app result" where
  "renderStateComparison spec status s =
     (let desiredVersion = get spec ''appVersion'';
          actualVersion = get status ''appVersion'';
          isSynced = (truthy status \<and> strict_eq desiredVersion actualVersion);
          s1 = s\<lparr>syncArrow := (if \<not> truthy status then ''''
                               else if isSynced then ''synced''
                               else ''pending'')\<rparr>
      in and_then (renderFlatState spec s1)
           (\<lambda>s2. if truthy status then renderFlatState status s2 else Returns s2))"
  for spec status

text \<open>
  \<^verbatim>\<open>renderDataLoggerSVG\<close>: \<^verbatim>\<open>spec?.logInterval > 0\<close> converts the interval to a
  primitive; the markup converts \<^verbatim>\<open>spec.appName || 'App'\<close> and
  \<^verbatim>\<open>spec.appVersion || '?'\<close> when \<^verbatim>\<open>spec?.enabled\<close> is truthy, and
  \<^verbatim>\<open>spec?.name || 'data-logger-1'\<close> always (the interval is converted once more when
  the device is logging, which cannot throw after the comparison has not).
\<close>

definition renderDataLoggerSVG :: "jsval \<Rightarrow> jsval \<Rightarrow> app \<Rightarrow> app result" where
  "renderDataLoggerSVG spec status s =
     and_then (template [get spec ''logInterval''] s)
       (\<lambda>s1. and_then
          (if truthy (get spec ''enabled'')
           then template [get spec ''appName'', get spec ''appVersion''] s1
           else Returns s1)
          (template [get spec ''name'']))"
  for spec status

text \<open>
  \<^verbatim>\<open>renderDevice\<close>: nothing on a falsy \<open>spec\<close>; otherwise \<^verbatim>\<open>spec.name || '--'\<close> and
  \<^verbatim>\<open>spec.location || '--'\<close> are assigned to \<^verbatim>\<open>textContent\<close>, and the drawing follows.
\<close>

definition renderDevice :: "jsval \<Rightarrow> jsval \<Rightarrow> app \<Rightarrow> app result" where
  "renderDevice spec status s =
     (if \<not> truthy spec then Returns s
      else and_then (template [get spec ''name''] s)
             (\<lambda>s1. and_then (template [get spec ''location''] s1)
                (renderDataLoggerSVG spec status)))"
  for spec status

definition updateDevice :: "browser \<Rightarrow> jsval \<Rightarrow> jsval \<Rightarrow> app \<Rightarrow> app result" where
  "updateDevice B spec status s =
     (let oldSpec = (case currentDevice s of None \<Rightarrow> JUndefined | Some d \<Rightarrow> device.spec d);
          s1 = s\<lparr>currentDevice := Some \<lparr>spec = spec, status = status\<rparr>\<rparr>;
          oldVersion = get oldSpec ''appVersion'';
          newVersion = get spec ''appVersion'';
          actualVersion = get status ''appVersion'';
          isSynced = (truthy status \<and> strict_eq newVersion actualVersion)
      in and_then
           (if truthy oldVersion \<and> truthy newVersion \<and> \<not> strict_eq oldVersion newVersion
            then and_then (template [oldVersion, newVersion] s1)
                   (\<lambda>s'. Returns (logActivity B (Desired_version oldVersion newVersion) ''info'' s'))
            else Returns s1)
           (\<lambda>s2. and_then
              (if isSynced \<and> truthy oldVersion \<and> \<not> strict_eq oldVersion newVersion
               then and_then (template [newVersion] s2)
                      (\<lambda>s'. Returns (logActivity B (Deployed newVersion) ''success'' s'))
               else if \<not> isSynced \<and> truthy actualVersion \<and> \<not> strict_eq newVersion actualVersion
               then and_then (template [actualVersion, newVersion] s2)
                      (\<lambda>s'. Returns (logActivity B (Reconciling actualVersion newVersion) ''reconciling'' s'))
               else Returns s2)
              (\<lambda>s3. and_then (renderDevice spec status s3) (renderStateComparison spec status))))"
  for spec status

text \<open>
  A frame as \<^verbatim>\<open>ws.onmessage\<close> meets it: \<^verbatim>\<open>JSON.parse(event.data)\<close> throws a
  SyntaxError, or gives a value.
\<close>

datatype frame = Undecodable | Decoded jsval

text \<open>
  The \<^verbatim>\<open>try\<close> block of \<^verbatim>\<open>ws.onmessage\<close>. Reading \<^verbatim>\<open>message.type\<close> of
  \<^verbatim>\<open>null\<close> throws. (\<^verbatim>\<open>flashReconcile\<close>, after an update, only restarts an animation.)
\<close>

definition ws_onmessage_try :: "browser \<Rightarrow> frame \<Rightarrow> app \<Rightarrow> app result" where
  "ws_onmessage_try B fr s =
     (case fr of
        Undecodable \<Rightarrow> Throws SyntaxError s
      | Decoded parsed \<Rightarrow>
          (let message = parsed;
               s1 = console_log ''WebSocket message received:'' s in
           if message = JNull \<or> message = JUndefined then Throws TypeError s1
           else if strict_eq (get message ''type'') (JStr ''init'') then
             (let device = get (get message ''devices'') ''data-logger-1'' in
              if truthy device
              then updateDevice B (get device ''spec'') (get device ''status'')
                     (logActivity B Connected_received_device_state ''info'' s1)
              else Returns s1)
           else if strict_eq (get message ''type'') (JStr ''update'') then
             and_then (template [get message ''device''] s1)
               (\<lambda>s2. updateDevice B (get message ''spec'') (get message ''status'')
                        (logActivity B (State_updated (get message ''device'')) ''success'' s2))
           else Returns (console_log ''Unknown message type:'' s1)))"

text \<open>\<^verbatim>\<open>ws.onmessage\<close>, with its \<^verbatim>\<open>catch\<close>.\<close>

definition ws_onmessage :: "browser \<Rightarrow> frame \<Rightarrow> app \<Rightarrow> app" where
  "ws_onmessage B fr s =
     (case ws_onmessage_try B fr s of
        Returns s' \<Rightarrow> s'
      | Throws e s' \<Rightarrow>
          logActivity B (Error_message e) ''error''
            (console_error ''Error processing WebSocket message:'' s'))"

text \<open>The frames of a session, handled in the order they arrive.\<close>

fun process :: "browser \<Rightarrow> frame list \<Rightarrow> app \<Rightarrow> app" where
  "process B [] s = s"
| "process B (fr # frs) s = process B frs (ws_onmessage B fr s)"

section \<open>The reconnection controller\<close>

definition clearTimeout :: "nat \<Rightarrow> app \<Rightarrow> app" where
  "clearTimeout k s =
     s\<lparr>timers := filter (\<lambda>t. snd t \<noteq> Watchdog k True \<and> snd t \<noteq> Watchdog k False) (timers s)\<rparr>"

definition setTimeout :: "callback \<Rightarrow> nat \<Rightarrow> app \<Rightarrow> app" where
  "setTimeout c ms s = s\<lparr>timers := timers s @ [(ms, c)]\<rparr>"

definition updateConnectionStatus :: "bool \<Rightarrow> app \<Rightarrow> app" where
  "updateConnectionStatus connected s =
     s\<lparr>status_text := (if connected then ''Connected'' else ''Disconnected'')\<rparr>"
  for connected

text \<open>
  \<^verbatim>\<open>connectWebSocket\<close>. Past the guard, reading \<^verbatim>\<open>config.reconcilerWsUrl\<close> of a
  \<^verbatim>\<open>null\<close> configuration throws; nothing catches it and nothing has been written.
\<close>

definition connectWebSocket :: "browser \<Rightarrow> world \<Rightarrow> app \<Rightarrow> app" where
  "connectWebSocket B W s =
     (if wsConnecting s \<or> (case ws s of None \<Rightarrow> False | Some k \<Rightarrow> readyState W k = OPEN) then s
      else if config s = JNull \<or> config s = JUndefined then s
      else if \<not> truthy (get (config s) ''reconcilerWsUrl'')
      then console_error ''No reconcilerWsUrl in config'' s
      else
        (let s1 = (console_log ''Connecting to WebSocket:'' s)\<lparr>wsConnecting := True\<rparr> in
         if WebSocket_throws W
         then (console_error ''Failed to create WebSocket:'' s1)\<lparr>wsConnecting := False\<rparr>
         else setTimeout (Watchdog (sockets s1) (isSafari B)) 1500
                (s1\<lparr>ws := Some (sockets s1), sockets := Suc (sockets s1)\<rparr>)))"

text \<open>
  The watchdog's callback. It reads the module's \<open>ws\<close>, whichever socket that is by
  then; on \<^verbatim>\<open>null\<close> the read throws, and nothing catches it.
\<close>

definition watchdog :: "world \<Rightarrow> bool \<Rightarrow> app \<Rightarrow> app" where
  "watchdog W safari s =
     (case ws s of
        None \<Rightarrow> s
      | Some k \<Rightarrow>
          if readyState W k \<noteq> OPEN
          then (let s1 = console_log ''WebSocket connection timeout'' s in
                if safari
                then (console_log ''Safari detected, reloading page...'' s1)\<lparr>reloads := Suc (reloads s1)\<rparr>
                else s1)
          else s)"

text \<open>The handlers of the \<open>k\<close>-th socket.\<close>

definition ws_onopen :: "browser \<Rightarrow> nat \<Rightarrow> app \<Rightarrow> app" where
  "ws_onopen B k s =
     logActivity B Connected_to_reconciler ''success''
       (updateConnectionStatus True
          ((console_log ''WebSocket connected'' (clearTimeout k s))\<lparr>wsConnecting := False\<rparr>))"

definition ws_onclose :: "browser \<Rightarrow> nat \<Rightarrow> app \<Rightarrow> app" where
  "ws_onclose B k s =
     setTimeout Reconnect 2000
       (logActivity B Disconnected_from_reconciler ''error''
          (updateConnectionStatus False
             ((console_log ''WebSocket closed:'' (clearTimeout k s))\<lparr>wsConnecting := False\<rparr>)))"

definition ws_onerror :: "nat \<Rightarrow> app \<Rightarrow> app" where
  "ws_onerror k s = (console_error ''WebSocket error'' (clearTimeout k s))\<lparr>wsConnecting := False\<rparr>"

text \<open>The \<^verbatim>\<open>pageshow\<close> listener.\<close>

definition pageshow :: "browser \<Rightarrow> world \<Rightarrow> bool \<Rightarrow> app \<Rightarrow> app" where
  "pageshow B W persisted s =
     (if persisted
      then (let s1 = console_log ''Page restored from bfcache, reconnecting WebSocket'' s;
                s2 = (case ws s1 of
                        None \<Rightarrow> s1
                      | Some k \<Rightarrow> s1\<lparr>close_calls := close_calls s1 @ [k], ws := None\<rparr>)
            in connectWebSocket B W (s2\<lparr>wsConnecting := False\<rparr>))
      else s)"

text \<open>A pending timer fires: it leaves the list, and its callback runs.\<close>

fun run_callback :: "browser \<Rightarrow> world \<Rightarrow> callback \<Rightarrow> app \<Rightarrow> app" where
  "run_callback B W (Watchdog k safari) s = watchdog W safari s"
| "run_callback B W Reconnect s = connectWebSocket B W s"

definition timer_fires :: "browser \<Rightarrow> world \<Rightarrow> nat \<Rightarrow> app \<Rightarrow> app" where
  "timer_fires B W i s =
     (if i < length (timers s)
      then run_callback B W (snd (timers s ! i))
             (s\<lparr>timers := take i (timers s) @ drop (Suc i) (timers s)\<rparr>)
      else s)"

text \<open>
  The module as loaded, before the configuration is fetched: \<^verbatim>\<open>config = {}\<close>, no
  device, no socket, an empty log. The two elements of the page are taken to start empty.
\<close>

definition initial :: app where
  "initial =
     \<lparr>config = JObj [], currentDevice = None, ws = None, wsConnecting = False,
      activityLog = [], sockets = 0, timers = [], close_calls = [], reloads = 0,
      console = [], status_text = [], syncArrow = [], clock_reads = 0\<rparr>"

section \<open>The connection bridge\<close>

text \<open>
  The web server (the \<^verbatim>\<open>wss.on('connection', ...)\<close> handler) pairs the browser's socket
  \<^verbatim>\<open>clientWs\<close> with a socket \<^verbatim>\<open>reconcilerWs\<close> of its own. The bridge is what the
  handlers do to the two sockets and to the keepalive interval: the calls made on each
  socket, in order, whether the interval is running, and the calls of
  \<^verbatim>\<open>clearInterval(pingInterval)\<close>.
\<close>

datatype ws_call = Ping | Send string | Close

record bridge =
  pingInterval :: bool
  clearInterval_calls :: nat
  clientWs_calls :: "ws_call list"
  reconcilerWs_calls :: "ws_call list"
  server_console :: "console_line list"

text \<open>What a handler of the bridge finds when it runs: the \<^verbatim>\<open>readyState\<close> of each side.\<close>

record sides =
  clientWs_readyState :: readyState
  reconcilerWs_readyState :: readyState

text \<open>
  \<^verbatim>\<open>setupConnection\<close>: no bridge when the browser has gone already; otherwise the
  upstream socket is opened and the interval started.
\<close>

definition setupConnection :: "readyState \<Rightarrow> bridge option" where
  "setupConnection clientWs_state =
     (if clientWs_state \<noteq> OPEN then None
      else Some \<lparr>pingInterval = True, clearInterval_calls = 0, clientWs_calls = [],
                 reconcilerWs_calls = [], server_console = []\<rparr>)"

definition clearInterval :: "bridge \<Rightarrow> bridge" where
  "clearInterval b = b\<lparr>pingInterval := False, clearInterval_calls := Suc (clearInterval_calls b)\<rparr>"

definition clientWs_call :: "ws_call \<Rightarrow> bridge \<Rightarrow> bridge" where
  "clientWs_call c b = b\<lparr>clientWs_calls := clientWs_calls b @ [c]\<rparr>"

definition reconcilerWs_call :: "ws_call \<Rightarrow> bridge \<Rightarrow> bridge" where
  "reconcilerWs_call c b = b\<lparr>reconcilerWs_calls := reconcilerWs_calls b @ [c]\<rparr>"

definition server_log :: "console_line \<Rightarrow> bridge \<Rightarrow> bridge" where
  "server_log l b = b\<lparr>server_console := server_console b @ [l]\<rparr>"

text \<open>
  The events of a bridge: the interval fires (a cleared interval never does), and the
  \<^verbatim>\<open>open\<close>, \<^verbatim>\<open>message\<close>, \<^verbatim>\<open>close\<close> and \<^verbatim>\<open>error\<close> events of the two sockets. A
  message's data is its text (\<^verbatim>\<open>data.toString()\<close> on the way down).
\<close>

datatype bridge_event =
    Interval_fires
  | Reconciler_open
  | Reconciler_message string
  | Client_message string
  | Client_close
  | Reconciler_close
  | Client_error
  | Reconciler_error

fun bridge_step :: "sides \<Rightarrow> bridge_event \<Rightarrow> bridge \<Rightarrow> bridge" where
  "bridge_step sd Interval_fires b =
     (if pingInterval b
      then (let b1 = (if reconcilerWs_readyState sd = OPEN then reconcilerWs_call Ping b else b)
            in if clientWs_readyState sd = OPEN then clientWs_call Ping b1 else b1)
      else b)"
| "bridge_step sd Reconciler_open b =
     server_log (Console_log ''Connected to reconciler, proxying messages'') b"
| "bridge_step sd (Reconciler_message data) b =
     (if clientWs_readyState sd = OPEN then clientWs_call (Send data) b else b)"
| "bridge_step sd (Client_message data) b =
     (if reconcilerWs_readyState sd = OPEN then reconcilerWs_call (Send data) b else b)"
| "bridge_step sd Client_close b =
     reconcilerWs_call Close (clearInterval (server_log (Console_log ''Browser disconnected:'') b))"
| "bridge_step sd Reconciler_close b =
     clientWs_call Close (clearInterval (server_log (Console_log ''Reconciler disconnected:'') b))"
| "bridge_step sd Client_error b =
     reconcilerWs_call Close (server_log (Console_error ''Browser WebSocket error:'') b)"
| "bridge_step sd Reconciler_error b =
     clientWs_call Close (server_log (Console_error ''Reconciler WebSocket error:'') b)"

text \<open>The events of a session, each with the socket states its handler finds.\<close>

fun bridge_run :: "(sides \<times> bridge_event) list \<Rightarrow> bridge \<Rightarrow> bridge" where
  "bridge_run [] b = b"
| "bridge_run (e # es) b = bridge_run es (bridge_step (fst e) (snd e) b)"

definition close_count :: "ws_call list \<Rightarrow> nat" where
  "close_count cs = count_list cs Close"

section \<open>Runs used by the properties\<close>

text \<open>
  A sequence of appends to the activity log, each a text and a severity, and the entries
  they create when the clock has been read \<open>n\<close> times before.
\<close>

fun log_all :: "browser \<Rightarrow> (activity_text \<times> string) list \<Rightarrow> app \<Rightarrow> app" where
  "log_all B [] s = s"
| "log_all B (e # es) s = log_all B es (logActivity B (fst e) (snd e) s)"

fun entries :: "browser \<Rightarrow> nat \<Rightarrow> (activity_text \<times> string) list \<Rightarrow> activity_entry list" where
  "entries B n [] = []"
| "entries B n (e # es) = \<lparr>time = clock B n, message = fst e, type = snd e\<rparr> # entries B (Suc n) es"

text \<open>An array or an object, as opposed to a primitive value.\<close>

fun is_object :: "jsval \<Rightarrow> bool" where
  "is_object (JArr xs) = True"
| "is_object (JObj kvs) = True"
| "is_object v = False"

text \<open>
  The value of \<^verbatim>\<open>message.type\<close> as the handler's tests see it (an undecodable frame
  has none), and whether a frame's \<^verbatim>\<open>device\<close> field is the identifier \<open>d\<close>.
\<close>

definition message_type :: "frame \<Rightarrow> jsval" where
  "message_type fr = (case fr of Undecodable \<Rightarrow> JUndefined | Decoded m \<Rightarrow> get m ''type'')"

definition names_device :: "string \<Rightarrow> frame \<Rightarrow> bool" where
  "names_device d fr =
     (case fr of Undecodable \<Rightarrow> False | Decoded m \<Rightarrow> strict_eq (get m ''device'') (JStr d))"

text \<open>
  The pair that \<^verbatim>\<open>ws.onmessage\<close> gives to \<^verbatim>\<open>updateDevice\<close> for a frame, if it
  gets that far: the \<^verbatim>\<open>data-logger-1\<close> entry of an \<^verbatim>\<open>init\<close> message, or the fields
  of an \<^verbatim>\<open>update\<close> message whose \<^verbatim>\<open>device\<close> converts to a string.
\<close>

definition applied :: "frame \<Rightarrow> device option" where
  "applied fr =
     (case fr of
        Undecodable \<Rightarrow> None
      | Decoded m \<Rightarrow>
          if strict_eq (get m ''type'') (JStr ''init'') then
            (let entry = get (get m ''devices'') ''data-logger-1'' in
             if truthy entry then Some \<lparr>spec = get entry ''spec'', status = get entry ''status''\<rparr>
             else None)
          else if strict_eq (get m ''type'') (JStr ''update'') \<and> \<not> ToString_throws (get m ''device'')
          then Some \<lparr>spec = get m ''spec'', status = get m ''status''\<rparr>
          else None)"

text \<open>
  The specification's reading of the two message shapes, to compare the code with: the
  pair a message carries for the device \<open>d\<close> (an \<^verbatim>\<open>init\<close> message carries one for each
  device of its mapping, an \<^verbatim>\<open>update\<close> message one for the device it names), and the
  pair carried by the most recent message of a sequence that references \<open>d\<close>.
\<close>

definition spec_carried :: "string \<Rightarrow> frame \<Rightarrow> device option" where
  "spec_carried d fr =
     (case fr of
        Undecodable \<Rightarrow> None
      | Decoded m \<Rightarrow>
          if strict_eq (get m ''type'') (JStr ''init'') then
            (let entry = get (get m ''devices'') d in
             if truthy entry then Some \<lparr>spec = get entry ''spec'', status = get entry ''status''\<rparr>
             else None)
          else if strict_eq (get m ''type'') (JStr ''update'') \<and> strict_eq (get m ''device'') (JStr d)
          then Some \<lparr>spec = get m ''spec'', status = get m ''status''\<rparr>
          else None)"

fun spec_most_recent :: "string \<Rightarrow> frame list \<Rightarrow> device option" where
  "spec_most_recent d [] = None"
| "spec_most_recent d (fr # frs) =
     (case spec_most_recent d frs of Some p \<Rightarrow> Some p | None \<Rightarrow> spec_carried d fr)"

text \<open>
  Messages used as examples: an update of a device with the given desired and actual
  application versions, and an \<^verbatim>\<open>init\<close> message with the given mapping.
\<close>

definition update_message :: "string \<Rightarrow> string \<Rightarrow> string \<Rightarrow> jsval" where
  "update_message d desired actual =
     JObj [(''type'', JStr ''update''), (''device'', JStr d),
           (''spec'', JObj [(''appVersion'', JStr desired)]),
           (''status'', JObj [(''appVersion'', JStr actual)])]"

definition init_message :: "(string \<times> jsval) list \<Rightarrow> jsval" where
  "init_message devices = JObj [(''type'', JStr ''init''), (''devices'', JObj devices)]"

definition versions :: "string \<Rightarrow> string \<Rightarrow> device" where
  "versions desired actual =
     \<lparr>spec = JObj [(''appVersion'', JStr desired)], status = JObj [(''appVersion'', JStr actual)]\<rparr>"

definition entry_of :: "device \<Rightarrow> jsval" where
  "entry_of p = JObj [(''spec'', spec p), (''status'', status p)]"

text \<open>
  The specification's four states of the reconnection controller, read off the module's
  socket and flag: Open when the module's socket is OPEN; Connecting when that socket is
  still CONNECTING, or when the flag \<^verbatim>\<open>wsConnecting\<close> is set; Closed when the socket
  is closing or closed and the flag is not set; Idle when there is no socket and the
  flag is not set.
\<close>

datatype controller_state = Idle | Connecting | Open | Closed

definition spec_controller_state :: "world \<Rightarrow> app \<Rightarrow> controller_state" where
  "spec_controller_state W s =
     (case ws s of
        None \<Rightarrow> if wsConnecting s then Connecting else Idle
      | Some k \<Rightarrow>
          if readyState W k = OPEN then Open
          else if readyState W k = CONNECTING \<or> wsConnecting s then Connecting
          else Closed)"

text \<open>
  \<open>n\<close> rounds of losing the connection: the close event of the module's socket, and then
  the retry timer that the close handler has just set (the last of the pending timers)
  fires.
\<close>

fun close_and_retry :: "browser \<Rightarrow> world \<Rightarrow> nat \<Rightarrow> app \<Rightarrow> app" where
  "close_and_retry B W 0 s = s"
| "close_and_retry B W (Suc n) s =
     close_and_retry B W n
       (case ws s of
          None \<Rightarrow> s
        | Some k \<Rightarrow> (let s1 = ws_onclose B k s in timer_fires B W (length (timers s1) - 1) s1))"

text \<open>
  The page-restore scenario: the page is loaded with the relay's address configured and
  socket 0 is constructed; socket 0 opens; the page is restored from the back-forward
  cache while socket 0 is open, so the listener closes it and constructs socket 1; the
  close event of socket 0 arrives. \<open>world_with r\<close> is the moment at which socket 0 is in
  state \<open>r\<close> and every later socket is still connecting.
\<close>

definition configured :: app where
  "configured = initial\<lparr>config := JObj [(''reconcilerWsUrl'', JStr ''ws://localhost:3000/ws'')]\<rparr>"

definition world_with :: "readyState \<Rightarrow> world" where
  "world_with r = \<lparr>readyState = (\<lambda>k. if k = 0 then r else CONNECTING), WebSocket_throws = False\<rparr>"

definition after_page_restore :: "browser \<Rightarrow> app" where
  "after_page_restore B =
     ws_onclose B 0
       (pageshow B (world_with OPEN) True
          (ws_onopen B 0
             (connectWebSocket B (world_with CONNECTING) configured)))"

section \<open>Properties of the activity log\<close>

lemma logActivity_activityLog:
  "length (activityLog s) \<le> 50 \<Longrightarrow>
   activityLog (logActivity B m ty s)
     = take 50 (\<lparr>time = clock B (clock_reads s), message = m, type = ty\<rparr> # activityLog s)"
proof -
  let ?l = "\<lparr>time = clock B (clock_reads s), message = m, type = ty\<rparr> # activityLog s"
  assume le: "length (activityLog s) \<le> 50"
  have "(if 50 < length ?l then butlast ?l else ?l) = take 50 ?l"
  proof (cases rule: linorder_cases [of "length (activityLog s)" 50])
    case less
    then show ?thesis by simp
  next
    case equal
    then have "length ?l - 1 = 50" by simp
    then have "butlast ?l = take 50 ?l" by (metis butlast_conv_take)
    with equal show ?thesis by simp
  next
    case greater
    with le show ?thesis by simp
  qed
  then show ?thesis by (simp add: logActivity_def Let_def)
qed

lemma logActivity_clock_reads: "clock_reads (logActivity B m ty s) = Suc (clock_reads s)"
  by (simp add: logActivity_def Let_def)

lemma take_append_take: "take n (xs @ take n ys) = take n (xs @ ys)"
  by simp

lemma log_all_activityLog:
  "length (activityLog s) \<le> 50 \<Longrightarrow>
   activityLog (log_all B es s) = take 50 (rev (entries B (clock_reads s) es) @ activityLog s)"
proof (induction es arbitrary: s)
  case Nil
  then show ?case by simp
next
  case (Cons e es)
  let ?s1 = "logActivity B (fst e) (snd e) s"
  let ?new = "\<lparr>time = clock B (clock_reads s), message = fst e, type = snd e\<rparr>"
  have l1: "activityLog ?s1 = take 50 (?new # activityLog s)"
    using Cons.prems by (rule logActivity_activityLog)
  then have "length (activityLog ?s1) \<le> 50" by simp
  then have "activityLog (log_all B es ?s1)
               = take 50 (rev (entries B (clock_reads ?s1) es) @ activityLog ?s1)"
    by (rule Cons.IH)
  also have "\<dots> = take 50 (rev (entries B (Suc (clock_reads s)) es) @ ?new # activityLog s)"
    unfolding l1 logActivity_clock_reads by (rule take_append_take)
  finally show ?case by simp
qed

text \<open>
  Claim C5. The activity history never holds more than 50 entries. An append puts the new
  entry at the head and, past capacity, drops the entry at the tail: from a log within
  capacity, one append gives the first 50 of the new entry followed by the old log, and a
  sequence of appends gives the first 50 of the created entries, newest first, followed by
  the old log. Every entry that stays is the entry as it was created, in its place.
\<close>

theorem activity_history_bounded:
  "length (activityLog s) \<le> 50 \<Longrightarrow>
     activityLog (logActivity B m ty s)
       = take 50 (\<lparr>time = clock B (clock_reads s), message = m, type = ty\<rparr> # activityLog s)
   \<and> activityLog (log_all B es s) = take 50 (rev (entries B (clock_reads s) es) @ activityLog s)
   \<and> length (activityLog (log_all B es s)) \<le> 50"
  using logActivity_activityLog [of s B m ty] log_all_activityLog [of s B es] by simp

theorem activity_history_bounded_witness:
  "length (activityLog initial) \<le> 50
   \<and> activityLog (logActivity \<lparr>clock = (\<lambda>n. ''12:00:00''), isSafari = False\<rparr>
        Connected_to_reconciler ''success'' initial)
       = [\<lparr>time = ''12:00:00'', message = Connected_to_reconciler, type = ''success''\<rparr>]
   \<and> activityLog (log_all \<lparr>clock = (\<lambda>n. ''12:00:00''), isSafari = False\<rparr>
        [(Connected_to_reconciler, ''success''), (Disconnected_from_reconciler, ''error'')] initial)
       = [\<lparr>time = ''12:00:00'', message = Disconnected_from_reconciler, type = ''error''\<rparr>,
          \<lparr>time = ''12:00:00'', message = Connected_to_reconciler, type = ''success''\<rparr>]"
  using activity_history_bounded [of initial "\<lparr>clock = (\<lambda>n. ''12:00:00''), isSafari = False\<rparr>"
      Connected_to_reconciler "''success''"
      "[(Connected_to_reconciler, ''success''), (Disconnected_from_reconciler, ''error'')]"]
  by (simp add: initial_def)

section \<open>Properties of the reconciliation state model\<close>

lemma state_of_template [simp]: "state_of (template vs s) = s"
  by (simp add: template_def)

lemma state_of_and_then:
  "state_of (and_then r f) = (case r of Returns s \<Rightarrow> state_of (f s) | Throws e s \<Rightarrow> s)"
  by (cases r) (simp_all add: and_then_def)

lemma state_of_renderFlatState [simp]: "state_of (renderFlatState data s) = s"
  by (simp add: renderFlatState_def)

lemma state_of_renderDataLoggerSVG [simp]:
  fixes spec status :: jsval
  shows "state_of (renderDataLoggerSVG spec status s) = s"
  by (simp add: renderDataLoggerSVG_def state_of_and_then template_def split: result.splits)

lemma state_of_renderDevice [simp]:
  fixes spec status :: jsval
  shows "state_of (renderDevice spec status s) = s"
  by (simp add: renderDevice_def state_of_and_then template_def split: result.splits)

lemma state_of_renderStateComparison:
  fixes spec status :: jsval
  shows "state_of (renderStateComparison spec status s)
     = s\<lparr>syncArrow := (if \<not> truthy status then ''''
                       else if strict_eq (get spec ''appVersion'') (get status ''appVersion'')
                       then ''synced'' else ''pending'')\<rparr>"
  by (simp add: renderStateComparison_def state_of_and_then Let_def renderFlatState_def template_def split: result.splits)

lemma currentDevice_logActivity [simp]: "currentDevice (logActivity B m ty s) = currentDevice s"
  by (simp add: logActivity_def Let_def)

lemma currentDevice_console_log [simp]: "currentDevice (console_log l s) = currentDevice s"
  by (simp add: console_log_def)

lemma currentDevice_console_error [simp]: "currentDevice (console_error l s) = currentDevice s"
  by (simp add: console_error_def)

lemma currentDevice_and_then:
  "currentDevice (state_of r) = Some d \<Longrightarrow>
   (\<And>s'. currentDevice s' = Some d \<Longrightarrow> currentDevice (state_of (f s')) = Some d) \<Longrightarrow>
   currentDevice (state_of (and_then r f)) = Some d"
  by (cases r) (simp_all add: and_then_def)

lemma currentDevice_log_if_converts:
  "currentDevice s = Some d \<Longrightarrow>
   currentDevice (state_of (and_then (template vs s) (\<lambda>s'. Returns (logActivity B m ty s')))) = Some d"
  by (rule currentDevice_and_then) simp_all

lemma updateDevice_currentDevice:
  fixes spec status :: jsval
  shows "currentDevice (state_of (updateDevice B spec status s)) = Some \<lparr>spec = spec, status = status\<rparr>"
  unfolding updateDevice_def Let_def
  apply (rule currentDevice_and_then)
   apply (simp add: currentDevice_log_if_converts)
  apply (rule currentDevice_and_then)
   apply (simp add: currentDevice_log_if_converts)
  apply (rule currentDevice_and_then)
   apply simp
  apply (simp add: state_of_renderStateComparison)
  done

lemma and_then_Returns:
  "and_then r f = Returns s' \<Longrightarrow> \<exists>s''. r = Returns s'' \<and> f s'' = Returns s'"
  by (cases r) (simp_all add: and_then_def)

lemma updateDevice_Returns_syncArrow:
  fixes spec status :: jsval
  assumes "updateDevice B spec status s = Returns s'"
  shows "syncArrow s' = syncArrow (state_of (renderStateComparison spec status s))"
proof -
  from assms obtain s3 where "renderStateComparison spec status s3 = Returns s'"
    unfolding updateDevice_def Let_def by (blast dest: and_then_Returns)
  then have "syncArrow s' = syncArrow (state_of (renderStateComparison spec status s3))" by simp
  then show ?thesis by (simp add: state_of_renderStateComparison)
qed

lemma strict_eq_primitive: "\<not> is_object a \<Longrightarrow> strict_eq a b = (a = b)"
  by (cases a; cases b) simp_all

text \<open>
  Claim C2. The class given to the sync arrow is a function of the pair alone. It is
  \<^verbatim>\<open>synced\<close> exactly when a status is there (truthy) and the desired application
  version is identical to the actual one, \<^verbatim>\<open>pending\<close> exactly when a status is there
  and the two are not identical, and the empty class (shown as a question mark: the
  status is unknown) exactly when no status is there. An update that returns holds the
  pair it was given and shows that class. Identical is \<^verbatim>\<open>===\<close>: for a desired
  version that is a primitive value (a string, a number) it is equality; a version that
  is an array or an object is identical to no other.
\<close>

theorem sync_status:
  fixes spec status :: jsval
  shows
   "(syncArrow (state_of (renderStateComparison spec status s)) = ''synced'')
       = (truthy status \<and> strict_eq (get spec ''appVersion'') (get status ''appVersion''))
    \<and> (syncArrow (state_of (renderStateComparison spec status s)) = ''pending'')
       = (truthy status \<and> \<not> strict_eq (get spec ''appVersion'') (get status ''appVersion''))
    \<and> (syncArrow (state_of (renderStateComparison spec status s)) = [])
       = (\<not> truthy status)
    \<and> (updateDevice B spec status s = Returns s' \<longrightarrow>
         currentDevice s' = Some \<lparr>spec = spec, status = status\<rparr>
         \<and> syncArrow s' = syncArrow (state_of (renderStateComparison spec status s)))
    \<and> (\<not> is_object (get spec ''appVersion'') \<longrightarrow>
         strict_eq (get spec ''appVersion'') (get status ''appVersion'')
           = (get spec ''appVersion'' = get status ''appVersion''))
    \<and> (is_object (get spec ''appVersion'') \<longrightarrow>
         \<not> strict_eq (get spec ''appVersion'') (get status ''appVersion''))"
proof -
  have "updateDevice B spec status s = Returns s' \<Longrightarrow>
        currentDevice s' = Some \<lparr>spec = spec, status = status\<rparr>"
    using updateDevice_currentDevice [of B spec status s] by simp
  moreover have "is_object (get spec ''appVersion'') \<Longrightarrow>
        \<not> strict_eq (get spec ''appVersion'') (get status ''appVersion'')"
    by (cases "get spec ''appVersion''") simp_all
  ultimately show ?thesis
    using updateDevice_Returns_syncArrow [of B spec status s s']
      strict_eq_primitive [of "get spec ''appVersion''" "get status ''appVersion''"]
    by (simp add: state_of_renderStateComparison)
qed

theorem sync_status_witness:
  "updateDevice \<lparr>clock = (\<lambda>n. ''12:00:00''), isSafari = False\<rparr>
        (JObj [(''appVersion'', JStr ''2.0'')]) (JObj [(''appVersion'', JStr ''2.0'')]) initial
      = Returns (initial\<lparr>currentDevice := Some \<lparr>spec = JObj [(''appVersion'', JStr ''2.0'')],
                                                  status = JObj [(''appVersion'', JStr ''2.0'')]\<rparr>,
                        syncArrow := ''synced''\<rparr>)
   \<and> syncArrow (state_of (renderStateComparison
        (JObj [(''appVersion'', JStr ''2.0'')]) (JObj [(''appVersion'', JStr ''2.0'')]) initial)) = ''synced''
   \<and> syncArrow (state_of (renderStateComparison
        (JObj [(''appVersion'', JStr ''2.0'')]) (JObj [(''appVersion'', JStr ''1.0'')]) initial)) = ''pending''
   \<and> syncArrow (state_of (renderStateComparison
        (JObj [(''appVersion'', JStr ''2.0'')]) JNull initial)) = []"
  using sync_status [where spec = "JObj [(''appVersion'', JStr ''2.0'')]"
      and status = "JObj [(''appVersion'', JStr ''2.0'')]" and s = initial
      and B = "\<lparr>clock = (\<lambda>n. ''12:00:00''), isSafari = False\<rparr>"
      and s' = "initial\<lparr>currentDevice := Some \<lparr>spec = JObj [(''appVersion'', JStr ''2.0'')],
                                                  status = JObj [(''appVersion'', JStr ''2.0'')]\<rparr>,
                        syncArrow := ''synced''\<rparr>"]
    sync_status [where spec = "JObj [(''appVersion'', JStr ''2.0'')]"
      and status = "JObj [(''appVersion'', JStr ''1.0'')]" and s = initial]
    sync_status [where spec = "JObj [(''appVersion'', JStr ''2.0'')]"
      and status = JNull and s = initial]
  by (simp add: updateDevice_def renderDevice_def renderDataLoggerSVG_def renderStateComparison_def
        renderFlatState_def template_def and_then_def initial_def Let_def)

lemma typed_message_is_object:
  "strict_eq (get m k) (JStr x) \<Longrightarrow> m \<noteq> JNull \<and> m \<noteq> JUndefined"
  by (cases m) simp_all

lemma strict_eq_JStr: "strict_eq v (JStr x) = (v = JStr x)"
  by (cases v) auto

lemma ws_onmessage_currentDevice_try:
  "currentDevice (ws_onmessage B fr s) = currentDevice (state_of (ws_onmessage_try B fr s))"
  by (cases "ws_onmessage_try B fr s") (simp_all add: ws_onmessage_def)

lemma ws_onmessage_try_currentDevice:
  "currentDevice (state_of (ws_onmessage_try B fr s))
     = (case applied fr of Some p \<Rightarrow> Some p | None \<Rightarrow> currentDevice s)"
proof (cases fr)
  case Undecodable
  then show ?thesis by (simp add: ws_onmessage_try_def applied_def)
next
  case (Decoded m)
  consider (init) "strict_eq (get m ''type'') (JStr ''init'')"
    | (update) "\<not> strict_eq (get m ''type'') (JStr ''init'')" "strict_eq (get m ''type'') (JStr ''update'')"
    | (other) "\<not> strict_eq (get m ''type'') (JStr ''init'')" "\<not> strict_eq (get m ''type'') (JStr ''update'')"
    by blast
  then show ?thesis
  proof cases
    case init
    with typed_message_is_object [OF init] Decoded show ?thesis
      by (simp add: ws_onmessage_try_def applied_def Let_def updateDevice_currentDevice)
  next
    case update
    with typed_message_is_object [OF update(2)] Decoded show ?thesis
      by (simp add: ws_onmessage_try_def applied_def Let_def updateDevice_currentDevice
            state_of_and_then template_def)
  next
    case other
    with Decoded show ?thesis
      by (simp add: ws_onmessage_try_def applied_def Let_def)
  qed
qed

lemma ws_onmessage_currentDevice:
  "currentDevice (ws_onmessage B fr s)
     = (case applied fr of Some p \<Rightarrow> Some p | None \<Rightarrow> currentDevice s)"
  by (simp add: ws_onmessage_currentDevice_try ws_onmessage_try_currentDevice)

lemma applied_eq_spec_carried:
  "(strict_eq (message_type fr) (JStr ''update'') \<longrightarrow> names_device ''data-logger-1'' fr) \<Longrightarrow>
   applied fr = spec_carried ''data-logger-1'' fr"
  by (cases fr) (auto simp: applied_def spec_carried_def message_type_def names_device_def strict_eq_JStr Let_def)

lemma applied_update_message [simp]:
  "applied (Decoded (update_message d desired actual)) = Some (versions desired actual)"
  by (simp add: applied_def update_message_def versions_def)

lemma applied_init_message [simp]:
  "applied (Decoded (init_message devices))
     = (case map_of devices ''data-logger-1'' of
          None \<Rightarrow> None
        | Some entry \<Rightarrow> if truthy entry then Some \<lparr>spec = get entry ''spec'', status = get entry ''status''\<rparr> else None)"
  by (simp add: applied_def init_message_def split: option.splits)

lemma get_entry_of [simp]:
  "get (entry_of p) ''spec'' = spec p" "get (entry_of p) ''status'' = status p" "truthy (entry_of p)"
  by (simp_all add: entry_of_def)

lemma spec_carried_Undecodable [simp]: "spec_carried d Undecodable = None"
  by (simp add: spec_carried_def)

lemma spec_carried_update_message [simp]:
  "spec_carried d (Decoded (update_message d' desired actual))
     = (if d' = d then Some (versions desired actual) else None)"
  by (simp add: spec_carried_def update_message_def versions_def)

lemma spec_carried_init_message [simp]:
  "spec_carried d (Decoded (init_message devices))
     = (case map_of devices d of
          None \<Rightarrow> None
        | Some entry \<Rightarrow> if truthy entry then Some \<lparr>spec = get entry ''spec'', status = get entry ''status''\<rparr> else None)"
  by (simp add: spec_carried_def init_message_def split: option.splits)

lemma message_type_examples [simp]:
  "message_type (Decoded (update_message d desired actual)) = JStr ''update''"
  "message_type (Decoded (init_message devices)) = JStr ''init''"
  "message_type Undecodable = JUndefined"
  by (simp_all add: message_type_def update_message_def init_message_def)

lemma names_device_update_message [simp]:
  "names_device d (Decoded (update_message d' desired actual)) = (d' = d)"
  by (simp add: names_device_def update_message_def)

lemma device_of_versions [simp]:
  "\<lparr>spec = spec (versions desired actual), status = status (versions desired actual)\<rparr>
     = versions desired actual"
  by (simp add: versions_def)

text \<open>
  Claim C1, as amended. The console holds one pair, that of the device
  \<^verbatim>\<open>data-logger-1\<close>, and no table of devices. For every sequence of frames in which
  every update message names \<^verbatim>\<open>data-logger-1\<close>, the pair held afterwards is exactly
  the pair carried by the most recent message that references \<^verbatim>\<open>data-logger-1\<close> (an
  update that names it, or an \<^verbatim>\<open>init\<close> message with an entry for it): the whole
  \<^verbatim>\<open>{spec, status}\<close> of that message and nothing of an older pair. When no message
  references the device, the pair is the one held before.
\<close>

theorem last_write_wins:
  assumes "\<forall>fr \<in> set frs. strict_eq (message_type fr) (JStr ''update'') \<longrightarrow> names_device ''data-logger-1'' fr"
  shows "currentDevice (process B frs s)
           = (case spec_most_recent ''data-logger-1'' frs of Some p \<Rightarrow> Some p | None \<Rightarrow> currentDevice s)"
  using assms
proof (induction frs arbitrary: s)
  case Nil
  then show ?case by simp
next
  case (Cons fr frs)
  then have "applied fr = spec_carried ''data-logger-1'' fr"
    by (simp add: applied_eq_spec_carried)
  then have "currentDevice (ws_onmessage B fr s)
        = (case spec_carried ''data-logger-1'' fr of Some p \<Rightarrow> Some p | None \<Rightarrow> currentDevice s)"
    by (simp add: ws_onmessage_currentDevice)
  moreover have "currentDevice (process B frs (ws_onmessage B fr s))
        = (case spec_most_recent ''data-logger-1'' frs of Some p \<Rightarrow> Some p
           | None \<Rightarrow> currentDevice (ws_onmessage B fr s))"
    using Cons.prems by (intro Cons.IH) simp
  ultimately show ?case by (simp split: option.splits)
qed

text \<open>
  An instance: an \<^verbatim>\<open>init\<close> message, an update, an \<^verbatim>\<open>init\<close> message without an
  entry for the device, and an undecodable frame. The pair is the update's.
\<close>

theorem last_write_wins_witness:
  "currentDevice
     (process \<lparr>clock = (\<lambda>n. ''12:00:00''), isSafari = False\<rparr>
        [Decoded (init_message [(''data-logger-1'', entry_of (versions ''1.0'' ''1.0''))]),
         Decoded (update_message ''data-logger-1'' ''2.0'' ''1.0''),
         Decoded (init_message [(''data-logger-2'', entry_of (versions ''7.0'' ''7.0''))]),
         Undecodable]
        initial)
     = Some (versions ''2.0'' ''1.0'')"
  using last_write_wins
    [of "[Decoded (init_message [(''data-logger-1'', entry_of (versions ''1.0'' ''1.0''))]),
          Decoded (update_message ''data-logger-1'' ''2.0'' ''1.0''),
          Decoded (init_message [(''data-logger-2'', entry_of (versions ''7.0'' ''7.0''))]),
          Undecodable]"
        "\<lparr>clock = (\<lambda>n. ''12:00:00''), isSafari = False\<rparr>" initial]
  by simp

text \<open>
  Claim C1 as stated fails. After an update of \<^verbatim>\<open>data-logger-1\<close> and then an update of
  \<^verbatim>\<open>data-logger-2\<close>, the most recent message referencing \<^verbatim>\<open>data-logger-1\<close> carries
  the versions 1.0, and the pair held is the other device's. And after an \<^verbatim>\<open>init\<close>
  message that carries a pair for \<^verbatim>\<open>data-logger-2\<close> alone, no pair is held at all.
\<close>

theorem last_write_wins_counterexample:
  "spec_most_recent ''data-logger-1''
       [Decoded (update_message ''data-logger-1'' ''1.0'' ''1.0''),
        Decoded (update_message ''data-logger-2'' ''9.0'' ''9.0'')]
     = Some (versions ''1.0'' ''1.0'')
   \<and> currentDevice
       (process \<lparr>clock = (\<lambda>n. ''12:00:00''), isSafari = False\<rparr>
          [Decoded (update_message ''data-logger-1'' ''1.0'' ''1.0''),
           Decoded (update_message ''data-logger-2'' ''9.0'' ''9.0'')]
          initial)
     = Some (versions ''9.0'' ''9.0'')
   \<and> versions ''9.0'' ''9.0'' \<noteq> versions ''1.0'' ''1.0''
   \<and> spec_most_recent ''data-logger-2''
       [Decoded (init_message [(''data-logger-2'', entry_of (versions ''7.0'' ''7.0''))])]
     = Some (versions ''7.0'' ''7.0'')
   \<and> currentDevice
       (process \<lparr>clock = (\<lambda>n. ''12:00:00''), isSafari = False\<rparr>
          [Decoded (init_message [(''data-logger-2'', entry_of (versions ''7.0'' ''7.0''))])]
          initial)
     = None"
proof -
  have "versions ''9.0'' ''9.0'' \<noteq> versions ''1.0'' ''1.0''"
    by (simp add: versions_def)
  then show ?thesis
    by (simp add: ws_onmessage_currentDevice initial_def)
qed

lemma ws_onmessage_init:
  assumes "strict_eq (get m ''type'') (JStr ''init'')"
  shows "ws_onmessage B (Decoded m) s =
           (let s1 = console_log ''WebSocket message received:'' s;
                device = get (get m ''devices'') ''data-logger-1''
            in if truthy device
               then (case updateDevice B (get device ''spec'') (get device ''status'')
                            (logActivity B Connected_received_device_state ''info'' s1) of
                       Returns s' \<Rightarrow> s'
                     | Throws e s' \<Rightarrow>
                         logActivity B (Error_message e) ''error''
                           (console_error ''Error processing WebSocket message:'' s'))
               else s1)"
  using assms typed_message_is_object [OF assms]
  by (simp add: ws_onmessage_def ws_onmessage_try_def Let_def)

text \<open>
  Claim C7, as amended. Of an \<^verbatim>\<open>init\<close> message the handler reads the entry of the
  device \<^verbatim>\<open>data-logger-1\<close> and nothing else. When that entry is there (truthy), the
  one pair the console holds becomes the entry's \<^verbatim>\<open>{spec, status}\<close>; when it is not,
  the pair held before stays. The entries of other devices are not stored: two
  \<^verbatim>\<open>init\<close> messages with the same \<^verbatim>\<open>data-logger-1\<close> entry leave the same state.
\<close>

theorem init_reads_one_device:
  "strict_eq (get m ''type'') (JStr ''init'') \<longrightarrow>
     currentDevice (ws_onmessage B (Decoded m) s)
       = (if truthy (get (get m ''devices'') ''data-logger-1'')
          then Some \<lparr>spec = get (get (get m ''devices'') ''data-logger-1'') ''spec'',
                      status = get (get (get m ''devices'') ''data-logger-1'') ''status''\<rparr>
          else currentDevice s)
     \<and> (strict_eq (get m' ''type'') (JStr ''init'')
          \<and> get (get m' ''devices'') ''data-logger-1'' = get (get m ''devices'') ''data-logger-1''
        \<longrightarrow> ws_onmessage B (Decoded m') s = ws_onmessage B (Decoded m) s)"
proof -
  have "strict_eq (get m ''type'') (JStr ''init'') \<Longrightarrow>
        currentDevice (ws_onmessage B (Decoded m) s)
          = (if truthy (get (get m ''devices'') ''data-logger-1'')
             then Some \<lparr>spec = get (get (get m ''devices'') ''data-logger-1'') ''spec'',
                         status = get (get (get m ''devices'') ''data-logger-1'') ''status''\<rparr>
             else currentDevice s)"
    by (simp add: ws_onmessage_currentDevice applied_def Let_def)
  moreover have "strict_eq (get m ''type'') (JStr ''init'') \<Longrightarrow>
        strict_eq (get m' ''type'') (JStr ''init'') \<Longrightarrow>
        get (get m' ''devices'') ''data-logger-1'' = get (get m ''devices'') ''data-logger-1'' \<Longrightarrow>
        ws_onmessage B (Decoded m') s = ws_onmessage B (Decoded m) s"
    by (simp add: ws_onmessage_init)
  ultimately show ?thesis by blast
qed

text \<open>
  An instance: a mapping with two devices sets the pair of \<^verbatim>\<open>data-logger-1\<close>, and
  leaves the state that the mapping without the second device leaves.
\<close>

theorem init_reads_one_device_witness:
  "strict_eq (get (init_message [(''data-logger-1'', entry_of (versions ''2.0'' ''1.0'')),
                                 (''data-logger-2'', entry_of (versions ''7.0'' ''7.0''))]) ''type'')
     (JStr ''init'')
   \<and> currentDevice
       (ws_onmessage \<lparr>clock = (\<lambda>n. ''12:00:00''), isSafari = False\<rparr>
          (Decoded (init_message [(''data-logger-1'', entry_of (versions ''2.0'' ''1.0'')),
                                  (''data-logger-2'', entry_of (versions ''7.0'' ''7.0''))]))
          initial)
     = Some (versions ''2.0'' ''1.0'')
   \<and> ws_onmessage \<lparr>clock = (\<lambda>n. ''12:00:00''), isSafari = False\<rparr>
        (Decoded (init_message [(''data-logger-1'', entry_of (versions ''2.0'' ''1.0''))])) initial
     = ws_onmessage \<lparr>clock = (\<lambda>n. ''12:00:00''), isSafari = False\<rparr>
        (Decoded (init_message [(''data-logger-1'', entry_of (versions ''2.0'' ''1.0'')),
                                (''data-logger-2'', entry_of (versions ''7.0'' ''7.0''))])) initial"
  using init_reads_one_device
    [of "init_message [(''data-logger-1'', entry_of (versions ''2.0'' ''1.0'')),
                       (''data-logger-2'', entry_of (versions ''7.0'' ''7.0''))]"
        "\<lparr>clock = (\<lambda>n. ''12:00:00''), isSafari = False\<rparr>" initial
        "init_message [(''data-logger-1'', entry_of (versions ''2.0'' ''1.0''))]"]
  by (simp add: init_message_def)

text \<open>
  Claim C7 as stated fails. The mapping carries a pair for \<^verbatim>\<open>data-logger-2\<close>, and the
  pair held afterwards is not that one; and a mapping without \<^verbatim>\<open>data-logger-1\<close> does
  not replace what was held.
\<close>

theorem init_reads_one_device_counterexample:
  "spec_carried ''data-logger-2''
       (Decoded (init_message [(''data-logger-1'', entry_of (versions ''2.0'' ''1.0'')),
                               (''data-logger-2'', entry_of (versions ''7.0'' ''7.0''))]))
     = Some (versions ''7.0'' ''7.0'')
   \<and> currentDevice
       (ws_onmessage \<lparr>clock = (\<lambda>n. ''12:00:00''), isSafari = False\<rparr>
          (Decoded (init_message [(''data-logger-1'', entry_of (versions ''2.0'' ''1.0'')),
                                  (''data-logger-2'', entry_of (versions ''7.0'' ''7.0''))]))
          initial)
     = Some (versions ''2.0'' ''1.0'')
   \<and> versions ''2.0'' ''1.0'' \<noteq> versions ''7.0'' ''7.0''
   \<and> currentDevice
       (ws_onmessage \<lparr>clock = (\<lambda>n. ''12:00:00''), isSafari = False\<rparr>
          (Decoded (init_message [(''data-logger-2'', entry_of (versions ''7.0'' ''7.0''))]))
          (initial\<lparr>currentDevice := Some (versions ''1.0'' ''1.0'')\<rparr>))
     = Some (versions ''1.0'' ''1.0'')"
proof -
  have "versions ''2.0'' ''1.0'' \<noteq> versions ''7.0'' ''7.0''"
    by (simp add: versions_def)
  then show ?thesis
    by (simp add: ws_onmessage_currentDevice)
qed

lemma ws_onmessage_unrecognised:
  assumes "\<not> strict_eq (message_type fr) (JStr ''init'')"
      and "\<not> strict_eq (message_type fr) (JStr ''update'')"
  shows "ws_onmessage B fr s =
           (case fr of
              Undecodable \<Rightarrow>
                logActivity B (Error_message SyntaxError) ''error''
                  (console_error ''Error processing WebSocket message:'' s)
            | Decoded m \<Rightarrow>
                if m = JNull \<or> m = JUndefined
                then logActivity B (Error_message TypeError) ''error''
                       (console_error ''Error processing WebSocket message:''
                          (console_log ''WebSocket message received:'' s))
                else console_log ''Unknown message type:''
                       (console_log ''WebSocket message received:'' s))"
  using assms
  by (cases fr) (simp_all add: ws_onmessage_def ws_onmessage_try_def message_type_def Let_def)

text \<open>
  Claim C9. A frame that cannot be decoded, or whose \<^verbatim>\<open>type\<close> is neither
  \<^verbatim>\<open>init\<close> nor \<^verbatim>\<open>update\<close> (a decoded \<^verbatim>\<open>null\<close> among them), is logged and
  otherwise ignored: an unknown type is written to the console, a frame that makes the
  handler throw is written to the console and to the activity log as an error. The pair
  held, the sync arrow, the socket and the connecting flag, the pending timers, the
  sockets closed and the configuration are what they were: the connection is not closed
  and the session goes on.
\<close>

theorem unrecognised_message_ignored:
  assumes "\<not> strict_eq (message_type fr) (JStr ''init'')"
      and "\<not> strict_eq (message_type fr) (JStr ''update'')"
  shows "ws_onmessage B fr s =
           (case fr of
              Undecodable \<Rightarrow>
                logActivity B (Error_message SyntaxError) ''error''
                  (console_error ''Error processing WebSocket message:'' s)
            | Decoded m \<Rightarrow>
                if m = JNull \<or> m = JUndefined
                then logActivity B (Error_message TypeError) ''error''
                       (console_error ''Error processing WebSocket message:''
                          (console_log ''WebSocket message received:'' s))
                else console_log ''Unknown message type:''
                       (console_log ''WebSocket message received:'' s))
         \<and> currentDevice (ws_onmessage B fr s) = currentDevice s
         \<and> syncArrow (ws_onmessage B fr s) = syncArrow s
         \<and> config (ws_onmessage B fr s) = config s
         \<and> ws (ws_onmessage B fr s) = ws s
         \<and> wsConnecting (ws_onmessage B fr s) = wsConnecting s
         \<and> sockets (ws_onmessage B fr s) = sockets s
         \<and> timers (ws_onmessage B fr s) = timers s
         \<and> close_calls (ws_onmessage B fr s) = close_calls s
         \<and> reloads (ws_onmessage B fr s) = reloads s
         \<and> status_text (ws_onmessage B fr s) = status_text s
         \<and> length (console s) < length (console (ws_onmessage B fr s))"
  unfolding ws_onmessage_unrecognised [OF assms]
  by (cases fr) (simp_all add: logActivity_def console_log_def console_error_def Let_def)

text \<open>An instance: a message of type \<^verbatim>\<open>ping\<close> only adds two lines to the console.\<close>

theorem unrecognised_message_ignored_witness:
  "\<not> strict_eq (message_type (Decoded (JObj [(''type'', JStr ''ping'')]))) (JStr ''init'')
   \<and> \<not> strict_eq (message_type (Decoded (JObj [(''type'', JStr ''ping'')]))) (JStr ''update'')
   \<and> ws_onmessage \<lparr>clock = (\<lambda>n. ''12:00:00''), isSafari = False\<rparr>
        (Decoded (JObj [(''type'', JStr ''ping'')])) initial
     = initial\<lparr>console := [Console_log ''WebSocket message received:'',
                              Console_log ''Unknown message type:'']\<rparr>"
  using unrecognised_message_ignored
    [of "Decoded (JObj [(''type'', JStr ''ping'')])"
        "\<lparr>clock = (\<lambda>n. ''12:00:00''), isSafari = False\<rparr>" initial]
  by (simp add: message_type_def console_log_def initial_def)

lemma hd_activityLog_logActivity:
  "hd (activityLog (logActivity B m ty s))
     = \<lparr>time = clock B (clock_reads s), message = m, type = ty\<rparr>"
  by (cases "activityLog s") (simp_all add: logActivity_def Let_def)

lemma ws_onmessage_update_in_sync:
  assumes "currentDevice s = Some (versions v actual)"
  shows "ws_onmessage B (Decoded (update_message d v v)) s
           = (logActivity B (State_updated (JStr d)) ''success''
                (console_log ''WebSocket message received:'' s))
              \<lparr>currentDevice := Some (versions v v), syncArrow := ''synced''\<rparr>"
  using assms
  by (simp add: ws_onmessage_def ws_onmessage_try_def update_message_def versions_def
        updateDevice_def renderDevice_def renderDataLoggerSVG_def renderStateComparison_def
        renderFlatState_def template_def and_then_def Let_def strict_eq_JStr
        logActivity_def console_log_def)

text \<open>
  Claim C4, as amended. After the update of \<^verbatim>\<open>d1\<close> with desired version 2.0 and
  actual version 1.0, and then the update with both versions 2.0, the sync arrow is
  \<^verbatim>\<open>synced\<close> and the pair held is the second message's; the second message appends
  one entry to the activity log, the success entry \<^verbatim>\<open>State updated: d1\<close>, which is
  the head. No entry about a deployment is appended: the desired version is the same in
  both messages, and the code logs a deployment only when the desired version changes in
  the message that brings the two versions together.
\<close>

theorem second_update_in_sync:
  "syncArrow (process B [Decoded (update_message ''d1'' ''2.0'' ''1.0''),
                         Decoded (update_message ''d1'' ''2.0'' ''2.0'')] s) = ''synced''
   \<and> currentDevice (process B [Decoded (update_message ''d1'' ''2.0'' ''1.0''),
                               Decoded (update_message ''d1'' ''2.0'' ''2.0'')] s)
       = Some (versions ''2.0'' ''2.0'')
   \<and> hd (activityLog (process B [Decoded (update_message ''d1'' ''2.0'' ''1.0''),
                                  Decoded (update_message ''d1'' ''2.0'' ''2.0'')] s))
       = \<lparr>time = clock B (clock_reads (ws_onmessage B (Decoded (update_message ''d1'' ''2.0'' ''1.0'')) s)),
          message = State_updated (JStr ''d1''), type = ''success''\<rparr>
   \<and> activityLog (process B [Decoded (update_message ''d1'' ''2.0'' ''1.0''),
                             Decoded (update_message ''d1'' ''2.0'' ''2.0'')] s)
       = activityLog (logActivity B (State_updated (JStr ''d1'')) ''success''
                        (ws_onmessage B (Decoded (update_message ''d1'' ''2.0'' ''1.0'')) s))"
proof -
  let ?s1 = "ws_onmessage B (Decoded (update_message ''d1'' ''2.0'' ''1.0'')) s"
  have "currentDevice ?s1 = Some (versions ''2.0'' ''1.0'')"
    by (simp add: ws_onmessage_currentDevice)
  then have "ws_onmessage B (Decoded (update_message ''d1'' ''2.0'' ''2.0'')) ?s1
           = (logActivity B (State_updated (JStr ''d1'')) ''success''
                (console_log ''WebSocket message received:'' ?s1))
              \<lparr>currentDevice := Some (versions ''2.0'' ''2.0''), syncArrow := ''synced''\<rparr>"
    by (rule ws_onmessage_update_in_sync)
  then show ?thesis
    using hd_activityLog_logActivity
      [of B "State_updated (JStr ''d1'')" "''success''" "console_log ''WebSocket message received:'' ?s1"]
    by (simp add: logActivity_def console_log_def Let_def)
qed

text \<open>An instance: the two messages from the module as loaded; the log, newest first.\<close>

theorem second_update_in_sync_witness:
  "map message
     (activityLog (process \<lparr>clock = (\<lambda>n. ''12:00:00''), isSafari = False\<rparr>
        [Decoded (update_message ''d1'' ''2.0'' ''1.0''),
         Decoded (update_message ''d1'' ''2.0'' ''2.0'')] initial))
     = [State_updated (JStr ''d1''), Reconciling (JStr ''1.0'') (JStr ''2.0''), State_updated (JStr ''d1'')]
   \<and> syncArrow (process \<lparr>clock = (\<lambda>n. ''12:00:00''), isSafari = False\<rparr>
        [Decoded (update_message ''d1'' ''2.0'' ''1.0''),
         Decoded (update_message ''d1'' ''2.0'' ''2.0'')] initial) = ''synced''"
  using second_update_in_sync [of "\<lparr>clock = (\<lambda>n. ''12:00:00''), isSafari = False\<rparr>" initial]
  by (simp add: ws_onmessage_def ws_onmessage_try_def update_message_def versions_def
        updateDevice_def renderDevice_def renderDataLoggerSVG_def renderStateComparison_def
        renderFlatState_def template_def and_then_def Let_def
        logActivity_def console_log_def initial_def)

text \<open>
  Claim C4 as stated fails: from the module as loaded, the head entry after the second
  message is \<^verbatim>\<open>State updated: d1\<close>, and no entry of the log is \<^verbatim>\<open>Deployed v2.0\<close>.
\<close>

theorem second_update_in_sync_counterexample:
  "message (hd (activityLog (process \<lparr>clock = (\<lambda>n. ''12:00:00''), isSafari = False\<rparr>
        [Decoded (update_message ''d1'' ''2.0'' ''1.0''),
         Decoded (update_message ''d1'' ''2.0'' ''2.0'')] initial)))
     = State_updated (JStr ''d1'')
   \<and> Deployed (JStr ''2.0'')
       \<notin> message ` set (activityLog (process \<lparr>clock = (\<lambda>n. ''12:00:00''), isSafari = False\<rparr>
        [Decoded (update_message ''d1'' ''2.0'' ''1.0''),
         Decoded (update_message ''d1'' ''2.0'' ''2.0'')] initial))"
  by (simp add: ws_onmessage_def ws_onmessage_try_def update_message_def versions_def
        updateDevice_def renderDevice_def renderDataLoggerSVG_def renderStateComparison_def
        renderFlatState_def template_def and_then_def Let_def
        logActivity_def console_log_def initial_def)

text \<open>
  The deployment entry is the head when the update that brings the versions together
  also changes the desired version: here from 1.0 to 2.0.
\<close>

lemma deployed_when_version_changes:
  assumes "currentDevice s = Some (versions ''1.0'' ''1.0'')"
  shows "hd (activityLog (ws_onmessage B (Decoded (update_message ''d1'' ''2.0'' ''2.0'')) s))
           = \<lparr>time = clock B (Suc (Suc (clock_reads s))), message = Deployed (JStr ''2.0''),
              type = ''success''\<rparr>"
  using assms
    hd_activityLog_logActivity [of B "Deployed (JStr ''2.0'')" "''success''"
      "logActivity B (Desired_version (JStr ''1.0'') (JStr ''2.0'')) ''info''
         ((logActivity B (State_updated (JStr ''d1'')) ''success''
            (console_log ''WebSocket message received:'' s))
          \<lparr>currentDevice := Some (versions ''2.0'' ''2.0'')\<rparr>)"]
  by (simp add: ws_onmessage_def ws_onmessage_try_def update_message_def versions_def
        updateDevice_def renderDevice_def renderDataLoggerSVG_def renderStateComparison_def
        renderFlatState_def template_def and_then_def Let_def logActivity_clock_reads console_log_def)

section \<open>Properties of the reconnection controller\<close>

lemma connectWebSocket_guard:
  "wsConnecting s \<or> (\<exists>k. ws s = Some k \<and> readyState W k = OPEN) \<Longrightarrow> connectWebSocket B W s = s"
  by (auto simp: connectWebSocket_def)

lemma ws_onclose_fields:
  "timers (ws_onclose B k s)
     = filter (\<lambda>t. snd t \<noteq> Watchdog k True \<and> snd t \<noteq> Watchdog k False) (timers s) @ [(2000, Reconnect)]"
  "wsConnecting (ws_onclose B k s) = False"
  "ws (ws_onclose B k s) = ws s"
  "sockets (ws_onclose B k s) = sockets s"
  "config (ws_onclose B k s) = config s"
  "close_calls (ws_onclose B k s) = close_calls s"
  by (simp_all add: ws_onclose_def setTimeout_def logActivity_def updateConnectionStatus_def
        console_log_def clearTimeout_def Let_def)

lemma configured_is_object: "truthy (get c k) \<Longrightarrow> c \<noteq> JNull \<and> c \<noteq> JUndefined"
  by (cases c) simp_all

lemma connectWebSocket_connects:
  assumes "\<not> wsConnecting s" and "spec_controller_state W s \<noteq> Open"
      and "truthy (get (config s) ''reconcilerWsUrl'')" and "\<not> WebSocket_throws W"
  shows "connectWebSocket B W s
           = s\<lparr>console := console s @ [Console_log ''Connecting to WebSocket:''],
               wsConnecting := True, ws := Some (sockets s), sockets := Suc (sockets s),
               timers := timers s @ [(1500, Watchdog (sockets s) (isSafari B))]\<rparr>"
  using assms configured_is_object [OF assms(3)]
  by (auto simp: spec_controller_state_def connectWebSocket_def console_log_def setTimeout_def Let_def
        split: if_splits option.splits)

lemma retry_round:
  assumes never_open: "\<forall>k. readyState W k \<noteq> OPEN"
      and url: "truthy (get (config s) ''reconcilerWsUrl'')" and ok: "\<not> WebSocket_throws W"
      and k: "ws s = Some k"
  shows "sockets (timer_fires B W (length (timers (ws_onclose B k s)) - 1) (ws_onclose B k s)) = Suc (sockets s)
       \<and> ws (timer_fires B W (length (timers (ws_onclose B k s)) - 1) (ws_onclose B k s)) = Some (sockets s)
       \<and> config (timer_fires B W (length (timers (ws_onclose B k s)) - 1) (ws_onclose B k s)) = config s
       \<and> wsConnecting (timer_fires B W (length (timers (ws_onclose B k s)) - 1) (ws_onclose B k s))"
proof -
  define s1 where "s1 = ws_onclose B k s"
  define s2 where "s2 = timer_fires B W (length (timers s1) - 1) s1"
  let ?rest = "filter (\<lambda>t. snd t \<noteq> Watchdog k True \<and> snd t \<noteq> Watchdog k False) (timers s)"
  let ?s1' = "s1\<lparr>timers := ?rest\<rparr>"
  have t1: "timers s1 = ?rest @ [(2000, Reconnect)]"
    unfolding s1_def by (rule ws_onclose_fields)
  then have fire: "s2 = connectWebSocket B W ?s1'"
    unfolding s2_def by (simp add: timer_fires_def nth_append)
  have "\<not> wsConnecting ?s1'"
    by (simp add: s1_def ws_onclose_fields)
  moreover have "spec_controller_state W ?s1' \<noteq> Open"
    using never_open k by (simp add: spec_controller_state_def s1_def ws_onclose_fields)
  moreover have "truthy (get (config ?s1') ''reconcilerWsUrl'')"
    using url by (simp add: s1_def ws_onclose_fields)
  ultimately have "connectWebSocket B W ?s1'
           = ?s1'\<lparr>console := console ?s1' @ [Console_log ''Connecting to WebSocket:''],
               wsConnecting := True, ws := Some (sockets ?s1'), sockets := Suc (sockets ?s1'),
               timers := timers ?s1' @ [(1500, Watchdog (sockets ?s1') (isSafari B))]\<rparr>"
    using ok by (intro connectWebSocket_connects)
  with fire have "sockets s2 = Suc (sockets s) \<and> ws s2 = Some (sockets s) \<and> config s2 = config s
         \<and> wsConnecting s2"
    by (simp add: s1_def ws_onclose_fields)
  then show ?thesis by (simp add: s2_def s1_def)
qed

lemma close_and_retry_sockets:
  assumes "\<forall>k. readyState W k \<noteq> OPEN"
      and "truthy (get (config s) ''reconcilerWsUrl'')" and "\<not> WebSocket_throws W"
      and "ws s \<noteq> None"
  shows "sockets (close_and_retry B W n s) = sockets s + n"
  using assms(2,4)
proof (induction n arbitrary: s)
  case 0
  then show ?case by simp
next
  case (Suc n)
  from Suc.prems obtain k where k: "ws s = Some k" by auto
  let ?s2 = "timer_fires B W (length (timers (ws_onclose B k s)) - 1) (ws_onclose B k s)"
  have r: "sockets ?s2 = Suc (sockets s) \<and> ws ?s2 = Some (sockets s) \<and> config ?s2 = config s
           \<and> wsConnecting ?s2"
    using assms(1) Suc.prems(1) assms(3) k by (rule retry_round)
  then have "sockets (close_and_retry B W n ?s2) = sockets ?s2 + n"
    using Suc.prems(1) by (intro Suc.IH) simp_all
  with r k show ?case by (simp add: Let_def)
qed

text \<open>
  The retry. Every close event sets one retry timer of 2000 ms, whatever the state and
  however many retries came before, and leaves the controller Closed when the module's
  socket is closing or closed. When the retry fires in the Closed state (with the relay's
  address configured and the constructor not throwing) a new socket is constructed and
  the controller is Connecting. Nothing bounds the retries: \<open>n\<close> rounds of close event
  and retry construct \<open>n\<close> sockets, for every \<open>n\<close>.
\<close>

lemma retry_after_close:
  "timers (ws_onclose B k s)
       = filter (\<lambda>t. snd t \<noteq> Watchdog k True \<and> snd t \<noteq> Watchdog k False) (timers s)
           @ [(2000, Reconnect)]
   \<and> (ws s = Some k \<and> readyState W k \<noteq> OPEN \<and> readyState W k \<noteq> CONNECTING \<longrightarrow>
        spec_controller_state W (ws_onclose B k s) = Closed)
   \<and> (spec_controller_state W s = Closed \<and> truthy (get (config s) ''reconcilerWsUrl'')
        \<and> \<not> WebSocket_throws W \<longrightarrow>
        wsConnecting (run_callback B W Reconnect s)
        \<and> ws (run_callback B W Reconnect s) = Some (sockets s)
        \<and> sockets (run_callback B W Reconnect s) = Suc (sockets s))
   \<and> ((\<forall>j. readyState W j \<noteq> OPEN) \<and> truthy (get (config s) ''reconcilerWsUrl'')
        \<and> \<not> WebSocket_throws W \<and> ws s \<noteq> None \<longrightarrow>
        sockets (close_and_retry B W n s) = sockets s + n)"
proof -
  have "spec_controller_state W s = Closed \<Longrightarrow> \<not> wsConnecting s \<and> spec_controller_state W s \<noteq> Open"
    by (auto simp: spec_controller_state_def split: option.splits if_splits)
  then have "spec_controller_state W s = Closed \<Longrightarrow> truthy (get (config s) ''reconcilerWsUrl'') \<Longrightarrow>
        \<not> WebSocket_throws W \<Longrightarrow>
        wsConnecting (run_callback B W Reconnect s)
        \<and> ws (run_callback B W Reconnect s) = Some (sockets s)
        \<and> sockets (run_callback B W Reconnect s) = Suc (sockets s)"
    by (simp add: connectWebSocket_connects)
  moreover have "ws s = Some k \<Longrightarrow> readyState W k \<noteq> OPEN \<Longrightarrow> readyState W k \<noteq> CONNECTING \<Longrightarrow>
        spec_controller_state W (ws_onclose B k s) = Closed"
    by (simp add: spec_controller_state_def ws_onclose_fields)
  ultimately show ?thesis
    using ws_onclose_fields(1) [of B k s] close_and_retry_sockets [of W s B n]
    by blast
qed

text \<open>
  Claim C6: a connect request while the controller is Connecting or Open has no effect,
  so that no second transport is constructed. This fails in the code. A connect request
  is refused while the flag \<^verbatim>\<open>wsConnecting\<close> is set or the module's socket is OPEN,
  and the flag is one for all sockets: the close handler of a socket that has been
  replaced clears it. The page is
  loaded and socket 0 opens; the page is restored from the back-forward cache, so socket
  0 is closed and socket 1 constructed; the close event of socket 0 arrives and clears
  the flag and sets a retry. The controller is Connecting: the module's socket 1 is still
  CONNECTING. The watchdog of socket 1 fires, and then the retry: the connect request is
  not refused, a third socket is constructed while socket 1 is still connecting, and
  socket 1 is never closed.
\<close>

theorem connect_while_connecting:
  "ws (after_page_restore \<lparr>clock = (\<lambda>n. ''12:00:00''), isSafari = False\<rparr>) = Some 1
   \<and> readyState (world_with CLOSED) 1 = CONNECTING
   \<and> spec_controller_state (world_with CLOSED)
        (after_page_restore \<lparr>clock = (\<lambda>n. ''12:00:00''), isSafari = False\<rparr>) = Connecting
   \<and> sockets (after_page_restore \<lparr>clock = (\<lambda>n. ''12:00:00''), isSafari = False\<rparr>) = 2
   \<and> timers (after_page_restore \<lparr>clock = (\<lambda>n. ''12:00:00''), isSafari = False\<rparr>)
       = [(1500, Watchdog 1 False), (2000, Reconnect)]
   \<and> connectWebSocket \<lparr>clock = (\<lambda>n. ''12:00:00''), isSafari = False\<rparr> (world_with CLOSED)
        (after_page_restore \<lparr>clock = (\<lambda>n. ''12:00:00''), isSafari = False\<rparr>)
       \<noteq> after_page_restore \<lparr>clock = (\<lambda>n. ''12:00:00''), isSafari = False\<rparr>
   \<and> sockets
        (timer_fires \<lparr>clock = (\<lambda>n. ''12:00:00''), isSafari = False\<rparr> (world_with CLOSED) 0
           (timer_fires \<lparr>clock = (\<lambda>n. ''12:00:00''), isSafari = False\<rparr> (world_with CLOSED) 0
              (after_page_restore \<lparr>clock = (\<lambda>n. ''12:00:00''), isSafari = False\<rparr>))) = 3
   \<and> ws
        (timer_fires \<lparr>clock = (\<lambda>n. ''12:00:00''), isSafari = False\<rparr> (world_with CLOSED) 0
           (timer_fires \<lparr>clock = (\<lambda>n. ''12:00:00''), isSafari = False\<rparr> (world_with CLOSED) 0
              (after_page_restore \<lparr>clock = (\<lambda>n. ''12:00:00''), isSafari = False\<rparr>))) = Some 2
   \<and> close_calls
        (timer_fires \<lparr>clock = (\<lambda>n. ''12:00:00''), isSafari = False\<rparr> (world_with CLOSED) 0
           (timer_fires \<lparr>clock = (\<lambda>n. ''12:00:00''), isSafari = False\<rparr> (world_with CLOSED) 0
              (after_page_restore \<lparr>clock = (\<lambda>n. ''12:00:00''), isSafari = False\<rparr>))) = [0]"
proof -
  let ?B = "\<lparr>clock = (\<lambda>n. ''12:00:00''), isSafari = False\<rparr>"
  have s: "after_page_restore ?B
      = initial\<lparr>config := JObj [(''reconcilerWsUrl'', JStr ''ws://localhost:3000/ws'')],
                ws := Some 1, wsConnecting := False, sockets := 2,
                timers := [(1500, Watchdog 1 False), (2000, Reconnect)],
                close_calls := [0],
                status_text := ''Disconnected'',
                activityLog :=
                  [\<lparr>time = ''12:00:00'', message = Disconnected_from_reconciler, type = ''error''\<rparr>,
                   \<lparr>time = ''12:00:00'', message = Connected_to_reconciler, type = ''success''\<rparr>],
                clock_reads := 2,
                console := [Console_log ''Connecting to WebSocket:'',
                            Console_log ''WebSocket connected'',
                            Console_log ''Page restored from bfcache, reconnecting WebSocket'',
                            Console_log ''Connecting to WebSocket:'',
                            Console_log ''WebSocket closed:'']\<rparr>"
    by (simp add: after_page_restore_def configured_def world_with_def connectWebSocket_def
          ws_onopen_def ws_onclose_def pageshow_def clearTimeout_def setTimeout_def
          updateConnectionStatus_def logActivity_def console_log_def initial_def Let_def)
  show ?thesis
    unfolding s
    by (simp add: spec_controller_state_def world_with_def connectWebSocket_def timer_fires_def
          watchdog_def setTimeout_def console_log_def initial_def Let_def)
qed

lemma timer_fires_watchdog:
  assumes "i < length (timers s)" and "timers s ! i = (ms, Watchdog k safari)"
      and "ws s = Some j" and "readyState W j \<noteq> OPEN"
  shows "timer_fires B W i s
       = (if safari
          then (console_log ''Safari detected, reloading page...''
                  (console_log ''WebSocket connection timeout''
                     (s\<lparr>timers := take i (timers s) @ drop (Suc i) (timers s)\<rparr>)))
               \<lparr>reloads := Suc (reloads s)\<rparr>
          else console_log ''WebSocket connection timeout''
                 (s\<lparr>timers := take i (timers s) @ drop (Suc i) (timers s)\<rparr>))"
  using assms by (simp add: timer_fires_def watchdog_def console_log_def Let_def)

text \<open>
  Claim C8, as amended. The watchdog is set for 1500 ms when a socket is constructed. When
  it fires while the module's socket is not OPEN, the controller writes the timeout to the
  console and stays in the state it was in: the connecting flag and the socket are
  unchanged, nothing is closed and no retry is set. When the client is Safari it calls
  \<^verbatim>\<open>location.reload()\<close> as well.
\<close>

theorem watchdog_only_logs:
  "(i < length (timers s) \<and> timers s ! i = (ms, Watchdog k safari)
      \<and> ws s = Some j \<and> readyState W j \<noteq> OPEN \<longrightarrow>
      timer_fires B W i s
       = (if safari
          then (console_log ''Safari detected, reloading page...''
                  (console_log ''WebSocket connection timeout''
                     (s\<lparr>timers := take i (timers s) @ drop (Suc i) (timers s)\<rparr>)))
               \<lparr>reloads := Suc (reloads s)\<rparr>
          else console_log ''WebSocket connection timeout''
                 (s\<lparr>timers := take i (timers s) @ drop (Suc i) (timers s)\<rparr>))
      \<and> spec_controller_state W (timer_fires B W i s) = spec_controller_state W s
      \<and> wsConnecting (timer_fires B W i s) = wsConnecting s
      \<and> ws (timer_fires B W i s) = ws s
      \<and> sockets (timer_fires B W i s) = sockets s
      \<and> close_calls (timer_fires B W i s) = close_calls s
      \<and> timers (timer_fires B W i s) = take i (timers s) @ drop (Suc i) (timers s)
      \<and> reloads (timer_fires B W i s) = (if safari then Suc (reloads s) else reloads s))
   \<and> (\<not> wsConnecting s \<and> spec_controller_state W s \<noteq> Open
       \<and> truthy (get (config s) ''reconcilerWsUrl'') \<and> \<not> WebSocket_throws W \<longrightarrow>
       timers (connectWebSocket B W s) = timers s @ [(1500, Watchdog (sockets s) (isSafari B))])"
proof -
  have "i < length (timers s) \<Longrightarrow> timers s ! i = (ms, Watchdog k safari) \<Longrightarrow>
        ws s = Some j \<Longrightarrow> readyState W j \<noteq> OPEN \<Longrightarrow>
        spec_controller_state W (timer_fires B W i s) = spec_controller_state W s
      \<and> wsConnecting (timer_fires B W i s) = wsConnecting s
      \<and> ws (timer_fires B W i s) = ws s
      \<and> sockets (timer_fires B W i s) = sockets s
      \<and> close_calls (timer_fires B W i s) = close_calls s
      \<and> timers (timer_fires B W i s) = take i (timers s) @ drop (Suc i) (timers s)
      \<and> reloads (timer_fires B W i s) = (if safari then Suc (reloads s) else reloads s)"
    by (simp add: timer_fires_watchdog spec_controller_state_def console_log_def)
  moreover have "\<not> wsConnecting s \<Longrightarrow> spec_controller_state W s \<noteq> Open \<Longrightarrow>
       truthy (get (config s) ''reconcilerWsUrl'') \<Longrightarrow> \<not> WebSocket_throws W \<Longrightarrow>
       timers (connectWebSocket B W s) = timers s @ [(1500, Watchdog (sockets s) (isSafari B))]"
    by (simp add: connectWebSocket_connects)
  ultimately show ?thesis
    using timer_fires_watchdog [of i s ms k safari j W B] by blast
qed

text \<open>An instance: on Safari the page is reloaded once, and the controller is Connecting.\<close>

theorem watchdog_only_logs_witness:
  "timers (connectWebSocket \<lparr>clock = (\<lambda>n. ''12:00:00''), isSafari = True\<rparr>
         \<lparr>readyState = (\<lambda>k. CONNECTING), WebSocket_throws = False\<rparr>
         (initial\<lparr>config := JObj [(''reconcilerWsUrl'', JStr ''ws://localhost:3000/ws'')]\<rparr>))
     = [(1500, Watchdog 0 True)]
   \<and> reloads
       (timer_fires \<lparr>clock = (\<lambda>n. ''12:00:00''), isSafari = True\<rparr>
          \<lparr>readyState = (\<lambda>k. CONNECTING), WebSocket_throws = False\<rparr> 0
          (connectWebSocket \<lparr>clock = (\<lambda>n. ''12:00:00''), isSafari = True\<rparr>
             \<lparr>readyState = (\<lambda>k. CONNECTING), WebSocket_throws = False\<rparr>
             (initial\<lparr>config := JObj [(''reconcilerWsUrl'', JStr ''ws://localhost:3000/ws'')]\<rparr>)))
     = 1
   \<and> spec_controller_state \<lparr>readyState = (\<lambda>k. CONNECTING), WebSocket_throws = False\<rparr>
       (timer_fires \<lparr>clock = (\<lambda>n. ''12:00:00''), isSafari = True\<rparr>
          \<lparr>readyState = (\<lambda>k. CONNECTING), WebSocket_throws = False\<rparr> 0
          (connectWebSocket \<lparr>clock = (\<lambda>n. ''12:00:00''), isSafari = True\<rparr>
             \<lparr>readyState = (\<lambda>k. CONNECTING), WebSocket_throws = False\<rparr>
             (initial\<lparr>config := JObj [(''reconcilerWsUrl'', JStr ''ws://localhost:3000/ws'')]\<rparr>)))
     = Connecting"
  using watchdog_only_logs
      [of 0 "connectWebSocket \<lparr>clock = (\<lambda>n. ''12:00:00''), isSafari = True\<rparr>
             \<lparr>readyState = (\<lambda>k. CONNECTING), WebSocket_throws = False\<rparr>
             (initial\<lparr>config := JObj [(''reconcilerWsUrl'', JStr ''ws://localhost:3000/ws'')]\<rparr>)"
          1500 0 True 0 "\<lparr>readyState = (\<lambda>k. CONNECTING), WebSocket_throws = False\<rparr>"
          "\<lparr>clock = (\<lambda>n. ''12:00:00''), isSafari = True\<rparr>"]
    watchdog_only_logs
      [of 0 "initial\<lparr>config := JObj [(''reconcilerWsUrl'', JStr ''ws://localhost:3000/ws'')]\<rparr>"
          0 0 True 0 "\<lparr>readyState = (\<lambda>k. CONNECTING), WebSocket_throws = False\<rparr>"
          "\<lparr>clock = (\<lambda>n. ''12:00:00''), isSafari = True\<rparr>"]
  by (simp add: spec_controller_state_def connectWebSocket_def console_log_def setTimeout_def
        initial_def)

text \<open>
  Claim C8 as stated fails. On a client that is not Safari, the watchdog of a socket that
  is still connecting fires: the controller is Connecting afterwards, not Closed, and the
  state differs from the one before only by the line on the console and the timer gone.
\<close>

theorem watchdog_only_logs_counterexample:
  "timers (connectWebSocket \<lparr>clock = (\<lambda>n. ''12:00:00''), isSafari = False\<rparr>
         \<lparr>readyState = (\<lambda>k. CONNECTING), WebSocket_throws = False\<rparr>
         (initial\<lparr>config := JObj [(''reconcilerWsUrl'', JStr ''ws://localhost:3000/ws'')]\<rparr>))
     = [(1500, Watchdog 0 False)]
   \<and> spec_controller_state \<lparr>readyState = (\<lambda>k. CONNECTING), WebSocket_throws = False\<rparr>
       (timer_fires \<lparr>clock = (\<lambda>n. ''12:00:00''), isSafari = False\<rparr>
          \<lparr>readyState = (\<lambda>k. CONNECTING), WebSocket_throws = False\<rparr> 0
          (connectWebSocket \<lparr>clock = (\<lambda>n. ''12:00:00''), isSafari = False\<rparr>
             \<lparr>readyState = (\<lambda>k. CONNECTING), WebSocket_throws = False\<rparr>
             (initial\<lparr>config := JObj [(''reconcilerWsUrl'', JStr ''ws://localhost:3000/ws'')]\<rparr>)))
     = Connecting
   \<and> timer_fires \<lparr>clock = (\<lambda>n. ''12:00:00''), isSafari = False\<rparr>
          \<lparr>readyState = (\<lambda>k. CONNECTING), WebSocket_throws = False\<rparr> 0
          (connectWebSocket \<lparr>clock = (\<lambda>n. ''12:00:00''), isSafari = False\<rparr>
             \<lparr>readyState = (\<lambda>k. CONNECTING), WebSocket_throws = False\<rparr>
             (initial\<lparr>config := JObj [(''reconcilerWsUrl'', JStr ''ws://localhost:3000/ws'')]\<rparr>))
     = initial\<lparr>config := JObj [(''reconcilerWsUrl'', JStr ''ws://localhost:3000/ws'')],
               ws := Some 0, wsConnecting := True, sockets := 1,
               console := [Console_log ''Connecting to WebSocket:'',
                           Console_log ''WebSocket connection timeout'']\<rparr>"
  by (simp add: spec_controller_state_def connectWebSocket_def console_log_def setTimeout_def
        timer_fires_def watchdog_def initial_def)

section \<open>Properties of the connection bridge\<close>

lemma bridge_step_clearInterval_calls:
  "clearInterval_calls (bridge_step sd e b)
     = clearInterval_calls b + (if e = Client_close \<or> e = Reconciler_close then 1 else 0)"
  by (cases e)
     (simp_all add: clearInterval_def clientWs_call_def reconcilerWs_call_def server_log_def Let_def)

lemma bridge_step_reconcilerWs_closes:
  "close_count (reconcilerWs_calls (bridge_step sd e b))
     = close_count (reconcilerWs_calls b) + (if e = Client_close \<or> e = Client_error then 1 else 0)"
  by (cases e)
     (simp_all add: close_count_def clearInterval_def clientWs_call_def reconcilerWs_call_def
        server_log_def Let_def)

lemma bridge_step_clientWs_closes:
  "close_count (clientWs_calls (bridge_step sd e b))
     = close_count (clientWs_calls b) + (if e = Reconciler_close \<or> e = Reconciler_error then 1 else 0)"
  by (cases e)
     (simp_all add: close_count_def clearInterval_def clientWs_call_def reconcilerWs_call_def
        server_log_def Let_def)

lemma bridge_step_pingInterval:
  "pingInterval (bridge_step sd e b) = (pingInterval b \<and> e \<noteq> Client_close \<and> e \<noteq> Reconciler_close)"
  by (cases e)
     (simp_all add: clearInterval_def clientWs_call_def reconcilerWs_call_def server_log_def Let_def)

lemma bridge_run_clearInterval_calls:
  "clearInterval_calls (bridge_run es b)
     = clearInterval_calls b + count_list (map snd es) Client_close
         + count_list (map snd es) Reconciler_close"
  by (induction es arbitrary: b) (auto simp: bridge_step_clearInterval_calls)

lemma bridge_run_reconcilerWs_closes:
  "close_count (reconcilerWs_calls (bridge_run es b))
     = close_count (reconcilerWs_calls b) + count_list (map snd es) Client_close
         + count_list (map snd es) Client_error"
  by (induction es arbitrary: b) (auto simp: bridge_step_reconcilerWs_closes)

lemma bridge_run_clientWs_closes:
  "close_count (clientWs_calls (bridge_run es b))
     = close_count (clientWs_calls b) + count_list (map snd es) Reconciler_close
         + count_list (map snd es) Reconciler_error"
  by (induction es arbitrary: b) (auto simp: bridge_step_clientWs_closes)

lemma bridge_run_pingInterval:
  "pingInterval (bridge_run es b)
     = (pingInterval b \<and> Client_close \<notin> snd ` set es \<and> Reconciler_close \<notin> snd ` set es)"
  by (induction es arbitrary: b) (auto simp: bridge_step_pingInterval)

lemma bridge_run_reconcilerWs_sends:
  "Send d \<in> set (reconcilerWs_calls (bridge_run es b)) \<Longrightarrow>
   Send d \<in> set (reconcilerWs_calls b) \<or> Client_message d \<in> snd ` set es"
proof (induction es arbitrary: b)
  case Nil
  then show ?case by simp
next
  case (Cons e es)
  from Cons.prems have "Send d \<in> set (reconcilerWs_calls (bridge_run es (bridge_step (fst e) (snd e) b)))"
    by simp
  then have "Send d \<in> set (reconcilerWs_calls (bridge_step (fst e) (snd e) b))
             \<or> Client_message d \<in> snd ` set es"
    by (rule Cons.IH)
  moreover have "Send d \<in> set (reconcilerWs_calls (bridge_step (fst e) (snd e) b)) \<Longrightarrow>
                 Send d \<in> set (reconcilerWs_calls b) \<or> snd e = Client_message d"
    by (cases "snd e")
       (auto simp: clearInterval_def clientWs_call_def reconcilerWs_call_def server_log_def Let_def
             split: if_splits)
  ultimately show ?case by auto
qed

lemma bridge_run_clientWs_sends:
  "Send d \<in> set (clientWs_calls (bridge_run es b)) \<Longrightarrow>
   Send d \<in> set (clientWs_calls b) \<or> Reconciler_message d \<in> snd ` set es"
proof (induction es arbitrary: b)
  case Nil
  then show ?case by simp
next
  case (Cons e es)
  from Cons.prems have "Send d \<in> set (clientWs_calls (bridge_run es (bridge_step (fst e) (snd e) b)))"
    by simp
  then have "Send d \<in> set (clientWs_calls (bridge_step (fst e) (snd e) b))
             \<or> Reconciler_message d \<in> snd ` set es"
    by (rule Cons.IH)
  moreover have "Send d \<in> set (clientWs_calls (bridge_step (fst e) (snd e) b)) \<Longrightarrow>
                 Send d \<in> set (clientWs_calls b) \<or> snd e = Reconciler_message d"
    by (cases "snd e")
       (auto simp: clearInterval_def clientWs_call_def reconcilerWs_call_def server_log_def Let_def
             split: if_splits)
  ultimately show ?case by auto
qed

text \<open>
  Claim C3, as amended. The bridge has no already-closing guard: every close event of
  either socket cancels the keepalive interval and calls \<^verbatim>\<open>close()\<close> on the other
  socket, and every error event calls \<^verbatim>\<open>close()\<close> on the other socket without
  cancelling the interval. Over any sequence of events the cancellations are as many as
  the close events, and the close calls on a socket as many as the close and error events
  of the other socket; the interval is running as long as no close event has come, and
  never after one.
\<close>

theorem teardown_calls:
  "clearInterval_calls (bridge_run es b)
     = clearInterval_calls b + count_list (map snd es) Client_close
         + count_list (map snd es) Reconciler_close
   \<and> close_count (reconcilerWs_calls (bridge_run es b))
     = close_count (reconcilerWs_calls b) + count_list (map snd es) Client_close
         + count_list (map snd es) Client_error
   \<and> close_count (clientWs_calls (bridge_run es b))
     = close_count (clientWs_calls b) + count_list (map snd es) Reconciler_close
         + count_list (map snd es) Reconciler_error
   \<and> pingInterval (bridge_run es b)
     = (pingInterval b \<and> Client_close \<notin> snd ` set es \<and> Reconciler_close \<notin> snd ` set es)"
  using bridge_run_clearInterval_calls [of es b] bridge_run_reconcilerWs_closes [of es b]
    bridge_run_clientWs_closes [of es b] bridge_run_pingInterval [of es b]
  by simp

text \<open>
  An instance: the browser's socket reports an error and then closes. The interval is
  cancelled once, and \<^verbatim>\<open>close()\<close> is called twice on the upstream socket.
\<close>

theorem teardown_calls_witness:
  "clearInterval_calls
     (bridge_run
        [(\<lparr>clientWs_readyState = CLOSING, reconcilerWs_readyState = OPEN\<rparr>, Client_error),
         (\<lparr>clientWs_readyState = CLOSED, reconcilerWs_readyState = CLOSING\<rparr>, Client_close)]
        (the (setupConnection OPEN))) = 1
   \<and> close_count (reconcilerWs_calls
     (bridge_run
        [(\<lparr>clientWs_readyState = CLOSING, reconcilerWs_readyState = OPEN\<rparr>, Client_error),
         (\<lparr>clientWs_readyState = CLOSED, reconcilerWs_readyState = CLOSING\<rparr>, Client_close)]
        (the (setupConnection OPEN)))) = 2"
  using teardown_calls
    [of "[(\<lparr>clientWs_readyState = CLOSING, reconcilerWs_readyState = OPEN\<rparr>, Client_error),
          (\<lparr>clientWs_readyState = CLOSED, reconcilerWs_readyState = CLOSING\<rparr>, Client_close)]"
        "the (setupConnection OPEN)"]
  by (simp add: setupConnection_def close_count_def)

text \<open>
  Claim C3 as stated fails. The browser closes while the upstream socket is open; the
  handler cancels the interval and closes the upstream socket, whose close event then
  runs the other handler: the interval is cancelled a second time, and \<^verbatim>\<open>close()\<close> is
  called on the browser's socket as well. And when the browser's socket reports an error
  and then closes, \<^verbatim>\<open>close()\<close> is called twice on the upstream socket.
\<close>

theorem teardown_calls_counterexample:
  "clearInterval_calls
     (bridge_run
        [(\<lparr>clientWs_readyState = CLOSED, reconcilerWs_readyState = OPEN\<rparr>, Client_close),
         (\<lparr>clientWs_readyState = CLOSED, reconcilerWs_readyState = CLOSED\<rparr>, Reconciler_close)]
        (the (setupConnection OPEN))) = 2
   \<and> clientWs_calls
     (bridge_run
        [(\<lparr>clientWs_readyState = CLOSED, reconcilerWs_readyState = OPEN\<rparr>, Client_close),
         (\<lparr>clientWs_readyState = CLOSED, reconcilerWs_readyState = CLOSED\<rparr>, Reconciler_close)]
        (the (setupConnection OPEN))) = [Close]
   \<and> reconcilerWs_calls
     (bridge_run
        [(\<lparr>clientWs_readyState = CLOSED, reconcilerWs_readyState = OPEN\<rparr>, Client_close),
         (\<lparr>clientWs_readyState = CLOSED, reconcilerWs_readyState = CLOSED\<rparr>, Reconciler_close)]
        (the (setupConnection OPEN))) = [Close]
   \<and> reconcilerWs_calls
     (bridge_run
        [(\<lparr>clientWs_readyState = CLOSING, reconcilerWs_readyState = OPEN\<rparr>, Client_error),
         (\<lparr>clientWs_readyState = CLOSED, reconcilerWs_readyState = CLOSING\<rparr>, Client_close)]
        (the (setupConnection OPEN))) = [Close, Close]"
  by (simp add: setupConnection_def clearInterval_def clientWs_call_def reconcilerWs_call_def
        server_log_def)

text \<open>
  Claim C10. A frame that arrives on one socket while the other socket is not OPEN is
  dropped without a trace: the handler leaves the bridge as it was (nothing sent, nothing
  queued, nothing logged), so the rest of the session runs as if the frame had never
  arrived, and the frame is never sent later unless it arrives again.
\<close>

theorem frame_dropped_unless_open:
  "(reconcilerWs_readyState sd \<noteq> OPEN \<longrightarrow>
      bridge_step sd (Client_message d) b = b
      \<and> bridge_run ((sd, Client_message d) # es) b = bridge_run es b
      \<and> (Send d \<notin> set (reconcilerWs_calls b) \<and> Client_message d \<notin> snd ` set es \<longrightarrow>
           Send d \<notin> set (reconcilerWs_calls (bridge_run ((sd, Client_message d) # es) b))))
   \<and> (clientWs_readyState sd \<noteq> OPEN \<longrightarrow>
      bridge_step sd (Reconciler_message d) b = b
      \<and> bridge_run ((sd, Reconciler_message d) # es) b = bridge_run es b
      \<and> (Send d \<notin> set (clientWs_calls b) \<and> Reconciler_message d \<notin> snd ` set es \<longrightarrow>
           Send d \<notin> set (clientWs_calls (bridge_run ((sd, Reconciler_message d) # es) b))))"
  using bridge_run_reconcilerWs_sends [of d es b] bridge_run_clientWs_sends [of d es b]
  by auto

text \<open>
  An instance: the browser sends a frame while the upstream socket is still connecting;
  the upstream socket then opens and the interval fires. The frame is never sent.
\<close>

theorem frame_dropped_unless_open_witness:
  "reconcilerWs_readyState \<lparr>clientWs_readyState = OPEN, reconcilerWs_readyState = CONNECTING\<rparr> \<noteq> OPEN
   \<and> bridge_step \<lparr>clientWs_readyState = OPEN, reconcilerWs_readyState = CONNECTING\<rparr>
        (Client_message ''hello'') (the (setupConnection OPEN)) = the (setupConnection OPEN)
   \<and> reconcilerWs_calls
        (bridge_run
           [(\<lparr>clientWs_readyState = OPEN, reconcilerWs_readyState = CONNECTING\<rparr>, Client_message ''hello''),
            (\<lparr>clientWs_readyState = OPEN, reconcilerWs_readyState = OPEN\<rparr>, Reconciler_open),
            (\<lparr>clientWs_readyState = OPEN, reconcilerWs_readyState = OPEN\<rparr>, Interval_fires)]
           (the (setupConnection OPEN))) = [Ping]"
  using frame_dropped_unless_open
    [of "\<lparr>clientWs_readyState = OPEN, reconcilerWs_readyState = CONNECTING\<rparr>" "''hello''"
        "the (setupConnection OPEN)"
        "[(\<lparr>clientWs_readyState = OPEN, reconcilerWs_readyState = OPEN\<rparr>, Reconciler_open),
          (\<lparr>clientWs_readyState = OPEN, reconcilerWs_readyState = OPEN\<rparr>, Interval_fires)]"]
  by (simp add: setupConnection_def clientWs_call_def reconcilerWs_call_def server_log_def)

end
